theory Spec2Isabelle
  imports
    Main
    "HOL-Library.Word"
    "HOL-Library.Char_ord"
    "HOL-Library.List_Lexorder"
begin

unbundle bit_operations_syntax

section \<open>Basic data types of the SFT I/O module\<close>

text \<open>
  The module is C code working on raw bytes.  A C \<^verbatim>\<open>CHAR\<close> is modelled as an Isabelle
  \<^typ>\<open>char\<close> (one byte), a \<^verbatim>\<open>CHAR\<close> buffer and the contents of a file as a list of
  them.  \<^verbatim>\<open>INT4\<close>/\<^verbatim>\<open>UINT4\<close> are 32-bit words, \<^verbatim>\<open>UINT8\<close> is a 64-bit word.  A
  \<^verbatim>\<open>REAL8\<close> is kept as its 64-bit pattern; arithmetic on such patterns is never
  computed by the model itself but taken from a parameter (see \<open>fpu\<close> below).
\<close>

type_synonym cchar = char
type_synonym INT4 = "32 word"
type_synonym UINT4 = "32 word"
type_synonym UINT8 = "64 word"
type_synonym REAL8 = "64 word"
type_synonym REAL4 = "32 word"

datatype xlal_errno =
  XLAL_EINVAL | XLAL_EIO | XLAL_ENOMEM | XLAL_EFUNC | XLAL_EDOM | XLAL_EDATA | XLAL_EFAILED

section \<open>CRC64 engine\<close>

definition POLY64 :: UINT8 where
  "POLY64 = 0xd800000000000000"

text \<open>One pass of the inner loop that builds a table entry.\<close>

definition crc_part_step :: "UINT8 \<Rightarrow> UINT8" where
  "crc_part_step part =
     (if part AND 1 \<noteq> 0 then drop_bit 1 part XOR POLY64 else drop_bit 1 part)"

text \<open>
  \<^verbatim>\<open>CRCTable[i]\<close>: the table is rebuilt by every call of \<^verbatim>\<open>calc_crc64\<close> and only
  read, so it is modelled as a function of the index.
\<close>

definition CRCTable :: "UINT8 \<Rightarrow> UINT8" where
  "CRCTable i = (crc_part_step ^^ 8) i"

text \<open>One pass of the loop over the data bytes.\<close>

definition crc_byte :: "UINT8 \<Rightarrow> cchar \<Rightarrow> UINT8" where
  "crc_byte crc c =
     (let temp1 = drop_bit 8 crc;
          temp2 = CRCTable ((crc XOR of_char c) AND 0xff)
      in temp1 XOR temp2)"

text \<open>
  \<^verbatim>\<open>calc_crc64(data, length, crc)\<close>.  The data pointer is \<open>None\<close> for \<^verbatim>\<open>NULL\<close>.
  Every caller in the module passes a \<open>length\<close> that does not exceed the buffer, so the
  bytes read are \<open>take (unat length) buf\<close>.
\<close>

definition calc_crc64 :: "cchar list option \<Rightarrow> UINT4 \<Rightarrow> UINT8 \<Rightarrow> UINT8" where
  "calc_crc64 data len crc =
     (case data of
        None \<Rightarrow> crc
      | Some buf \<Rightarrow> if len = 0 then crc else foldl crc_byte crc (take (unat len) buf))"

section \<open>Floating point\<close>

text \<open>
  Comparisons of binary64 patterns are modelled exactly (IEEE 754: a NaN compares unordered
  with everything, the two zeros are equal).  \<open>fp_mag\<close> is the pattern without its sign
  bit, \<open>fp_key\<close> an integer that orders all patterns that are not NaN as their values.
\<close>

definition fp_mag :: "REAL8 \<Rightarrow> int" where
  "fp_mag x = uint x mod 2 ^ 63"

definition fp_is_nan :: "REAL8 \<Rightarrow> bool" where
  "fp_is_nan x = (0x7FF0000000000000 < fp_mag x)"

definition fp_key :: "REAL8 \<Rightarrow> int" where
  "fp_key x = (if 2 ^ 63 \<le> uint x then - fp_mag x else fp_mag x)"

definition fp_lt :: "REAL8 \<Rightarrow> REAL8 \<Rightarrow> bool" where
  "fp_lt x y = (\<not> fp_is_nan x \<and> \<not> fp_is_nan y \<and> fp_key x < fp_key y)"

definition fp_le :: "REAL8 \<Rightarrow> REAL8 \<Rightarrow> bool" where
  "fp_le x y = (\<not> fp_is_nan x \<and> \<not> fp_is_nan y \<and> fp_key x \<le> fp_key y)"

definition fp_eq :: "REAL8 \<Rightarrow> REAL8 \<Rightarrow> bool" where
  "fp_eq x y = (\<not> fp_is_nan x \<and> \<not> fp_is_nan y \<and> fp_key x = fp_key y)"

text \<open>The binary64 patterns of the literals \<^verbatim>\<open>0\<close>, \<^verbatim>\<open>1.0\<close>, \<^verbatim>\<open>2\<close> and \<^verbatim>\<open>1.e-9\<close>.\<close>

definition REAL8_0 :: REAL8 where "REAL8_0 = 0"
definition REAL8_1 :: REAL8 where "REAL8_1 = 0x3FF0000000000000"
definition REAL8_2 :: REAL8 where "REAL8_2 = 0x4000000000000000"
definition REAL8_1em9 :: REAL8 where "REAL8_1em9 = 0x3E112E0BE826D695"

text \<open>
  Rounded arithmetic is not computed by the model: the operations of the machine are a
  parameter, and every theorem below holds whatever they are; \<open>fp_lround\<close>, \<open>fp_floor\<close>
  and \<open>fp_ceil\<close> give the integer that \<^verbatim>\<open>lround\<close>, \<^verbatim>\<open>floor\<close> and \<^verbatim>\<open>ceil\<close> return.
  The same record carries
  two helpers of \<^verbatim>\<open>SFTutils.c\<close>, which is not among the sources: the table of
  recognized detector codes read by \<^verbatim>\<open>XLALIsValidCWDetector\<close>, and
  \<^verbatim>\<open>TSFTfromDFreq\<close>.
\<close>

record env =
  fp_add :: "REAL8 \<Rightarrow> REAL8 \<Rightarrow> REAL8"
  fp_mul :: "REAL8 \<Rightarrow> REAL8 \<Rightarrow> REAL8"
  fp_div :: "REAL8 \<Rightarrow> REAL8 \<Rightarrow> REAL8"
  fp_of_int :: "int \<Rightarrow> REAL8"
  fp_lround :: "REAL8 \<Rightarrow> int"
  fp_floor :: "REAL8 \<Rightarrow> int"
  fp_ceil :: "REAL8 \<Rightarrow> int"
  TSFTfromDFreq :: "REAL8 \<Rightarrow> REAL8"
  knownDetectors :: "cchar list list"

section \<open>Memory images and files\<close>

definition NUL :: cchar where
  "NUL = CHR 0x00"

text \<open>A C string read from a buffer: the bytes before the first \<^verbatim>\<open>'\0'\<close>.\<close>

definition c_str :: "cchar list \<Rightarrow> cchar list" where
  "c_str buf = takeWhile (\<lambda>c. c \<noteq> NUL) buf"

text \<open>
  \<open>s[i]\<close> for a string held in a zero-filled array (as the \<^verbatim>\<open>name\<close> field of an SFT is):
  the terminator and what follows it read as \<^verbatim>\<open>'\0'\<close>.
\<close>

definition c_index :: "cchar list \<Rightarrow> nat \<Rightarrow> cchar" where
  "c_index s i = (if i < length s then s ! i else NUL)"

text \<open>The memory image of an integer or a \<^verbatim>\<open>REAL8\<close> on a little-endian host, and back.\<close>

definition le_bytes :: "nat \<Rightarrow> 'a::len word \<Rightarrow> cchar list" where
  "le_bytes n w = map (\<lambda>i. char_of (unat (drop_bit (8 * i) w))) [0..<n]"

definition le_word :: "cchar list \<Rightarrow> 'a::len word" where
  "le_word cs = horner_sum of_char 256 cs"

text \<open>\<^verbatim>\<open>endian_swap(pdata, dsize, 1)\<close> on the \<open>dsize\<close> bytes of one element reverses them.\<close>

definition endian_swap :: "cchar list \<Rightarrow> cchar list" where
  "endian_swap pdata = rev pdata"

text \<open>
  An open file: its contents and the position.  \<open>fread n\<close> delivers the bytes that are
  there, at most \<open>n\<close>, and moves the position past them.  \<^verbatim>\<open>ftell\<close> is \<open>fpos\<close>.
\<close>

record FILE =
  fbytes :: "cchar list"
  fpos :: nat

definition fread :: "nat \<Rightarrow> FILE \<Rightarrow> cchar list \<times> FILE" where
  "fread n fp =
     (let bs = take n (drop (fpos fp) (fbytes fp))
      in (bs, fp\<lparr>fpos := fpos fp + length bs\<rparr>))"

definition fseek_cur :: "nat \<Rightarrow> FILE \<Rightarrow> FILE" where
  "fseek_cur off fp = fp\<lparr>fpos := fpos fp + off\<rparr>"

definition fseek_set :: "nat \<Rightarrow> FILE \<Rightarrow> FILE" where
  "fseek_set off fp = fp\<lparr>fpos := off\<rparr>"

section \<open>SFT data structures\<close>

record LIGOTimeGPS =
  gpsSeconds :: INT4
  gpsNanoSeconds :: INT4

text \<open>A \<^verbatim>\<open>COMPLEX8\<close> is two \<^verbatim>\<open>REAL4\<close> patterns, real part first.\<close>

type_synonym COMPLEX8 = "REAL4 \<times> REAL4"

text \<open>
  \<^verbatim>\<open>SFTtype\<close> (a \<^verbatim>\<open>COMPLEX8FrequencySeries\<close>).  The \<open>name\<close> is the C string held in the
  name array; \<open>data\<close> is \<open>None\<close> for a \<^verbatim>\<open>NULL\<close> pointer.  The units field plays no role in
  file I/O and is left out.
\<close>

record SFTtype =
  name :: "cchar list"
  epoch :: LIGOTimeGPS
  f0 :: REAL8
  deltaF :: REAL8
  data :: "COMPLEX8 list option"

text \<open>The raw v2 header \<^verbatim>\<open>_SFT_header_v2_t\<close>: 48 bytes without holes.\<close>

record SFT_header_v2_t =
  rh_version :: REAL8
  rh_gps_sec :: INT4
  rh_gps_nsec :: INT4
  rh_tbase :: REAL8
  rh_first_frequency_index :: INT4
  rh_nsamples :: INT4
  rh_crc64 :: UINT8
  rh_detector :: "cchar list"
  rh_padding :: "cchar list"
  rh_comment_length :: INT4

definition rawheader_image :: "SFT_header_v2_t \<Rightarrow> cchar list" where
  "rawheader_image h =
     le_bytes 8 (rh_version h) @ le_bytes 4 (rh_gps_sec h) @ le_bytes 4 (rh_gps_nsec h) @
     le_bytes 8 (rh_tbase h) @ le_bytes 4 (rh_first_frequency_index h) @
     le_bytes 4 (rh_nsamples h) @ le_bytes 8 (rh_crc64 h) @
     take 2 (rh_detector h) @ take 2 (rh_padding h) @ le_bytes 4 (rh_comment_length h)"

definition field :: "cchar list \<Rightarrow> nat \<Rightarrow> nat \<Rightarrow> cchar list" where
  "field raw off n = take n (drop off raw)"

text \<open>
  The header as the reader sees it after the optional byte swap of the fields it swaps
  (detector and padding are not swapped).
\<close>

definition rawheader_of_image :: "bool \<Rightarrow> cchar list \<Rightarrow> SFT_header_v2_t" where
  "rawheader_of_image swapEndian raw =
     (let sw = (\<lambda>bs. if swapEndian then endian_swap bs else bs)
      in \<lparr> rh_version = le_word (sw (field raw 0 8)),
           rh_gps_sec = le_word (sw (field raw 8 4)),
           rh_gps_nsec = le_word (sw (field raw 12 4)),
           rh_tbase = le_word (sw (field raw 16 8)),
           rh_first_frequency_index = le_word (sw (field raw 24 4)),
           rh_nsamples = le_word (sw (field raw 28 4)),
           rh_crc64 = le_word (sw (field raw 32 8)),
           rh_detector = field raw 40 2,
           rh_padding = field raw 42 2,
           rh_comment_length = le_word (sw (field raw 44 4)) \<rparr>)"

text \<open>The image with the checksum field set to 0, over which the header CRC is taken.\<close>

definition zero_crc_field :: "cchar list \<Rightarrow> cchar list" where
  "zero_crc_field raw = take 32 raw @ replicate 8 NUL @ drop 40 raw"

text \<open>
  Modelled from the spec: \<^verbatim>\<open>XLALIsValidCWDetector\<close> of \<^verbatim>\<open>SFTutils.c\<close>, which is not
  among the sources: the two-character detector code is one of the recognized set.
\<close>

definition XLALIsValidCWDetector :: "env \<Rightarrow> cchar list \<Rightarrow> bool" where
  "XLALIsValidCWDetector E nm = (take 2 nm \<in> set (knownDetectors E))"

definition GPS2REAL8 :: "env \<Rightarrow> LIGOTimeGPS \<Rightarrow> REAL8" where
  "GPS2REAL8 E gps =
     fp_add E (fp_mul E REAL8_1 (fp_of_int E (sint (gpsSeconds gps))))
              (fp_mul E REAL8_1em9 (fp_of_int E (sint (gpsNanoSeconds gps))))"

section \<open>Header codec\<close>

text \<open>
  \<^verbatim>\<open>read_SFTversion_from_fp\<close>.  The only supported version is 2, so the loop over the
  versions has one pass: the eight bytes are compared with the pattern of \<^verbatim>\<open>2.0\<close> as it
  is and byte-swapped.  The position is restored in every case, so no file is returned.
\<close>

definition read_SFTversion_from_fp :: "FILE \<Rightarrow> (UINT4 \<times> bool) option" where
  "read_SFTversion_from_fp fp =
     (let (ver, fp') = fread 8 fp
      in if length ver \<noteq> 8 then None
         else if ver = le_bytes 8 REAL8_2 then Some (2, False)
         else if ver = endian_swap (le_bytes 8 REAL8_2) then Some (2, True)
         else None)"

text \<open>
  \<^verbatim>\<open>read_v2_header_from_fp\<close>.  On success: the header, the number of samples, the CRC
  computed over header and comment, the CRC stored in the file, the comment (\<open>None\<close> when
  the comment length is 0) and the file positioned after the comment.  On failure the
  position is restored, which is the caller keeping its own file value.
\<close>

definition read_v2_header_from_fp ::
  "env \<Rightarrow> FILE \<Rightarrow> bool \<Rightarrow> (SFTtype \<times> UINT4 \<times> UINT8 \<times> UINT8 \<times> cchar list option \<times> FILE) option" where
  "read_v2_header_from_fp E fp swapEndian =
     (let (raw, fp1) = fread 48 fp
      in if length raw \<noteq> 48 then None
         else
           let crc = calc_crc64 (Some (zero_crc_field raw)) 48 (NOT 0);
               rawheader = rawheader_of_image swapEndian raw;
               header = \<lparr> name = c_str (rh_detector rawheader),
                          epoch = \<lparr> gpsSeconds = rh_gps_sec rawheader,
                                    gpsNanoSeconds = rh_gps_nsec rawheader \<rparr>,
                          f0 = fp_div E (fp_of_int E (sint (rh_first_frequency_index rawheader)))
                                        (rh_tbase rawheader),
                          deltaF = fp_div E REAL8_1 (rh_tbase rawheader),
                          data = None \<rparr>
           in if \<not> fp_eq (rh_version rawheader) REAL8_2 then None
              else if sint (rh_nsamples rawheader) \<le> 0 then None
              else if sint (rh_comment_length rawheader) < 0 then None
              else if sint (rh_comment_length rawheader) mod 8 \<noteq> 0 then None
              else if \<not> XLALIsValidCWDetector E (c_str (rh_detector rawheader)) then None
              else if rh_comment_length rawheader = 0
              then Some (header, rh_nsamples rawheader, crc, rh_crc64 rawheader, None, fp1)
              else
                let (comm, fp2) = fread (unat (rh_comment_length rawheader)) fp1
                in if length comm \<noteq> unat (rh_comment_length rawheader) then None
                   else if last comm \<noteq> NUL then None
                   else if \<exists>c \<in> set (drop (length (c_str comm)) (butlast comm)). c \<noteq> NUL
                   then None
                   else
                     let comment_len = (of_nat (length (c_str comm)) + 1 :: UINT4);
                         pad_len = (8 - comment_len mod 8) mod 8;
                         crc1 = calc_crc64 (Some comm) comment_len crc;
                         crc2 = calc_crc64 (Some (replicate 7 NUL)) pad_len crc1
                     in Some (header, rh_nsamples rawheader, crc2, rh_crc64 rawheader,
                              Some (c_str comm), fp2))"

text \<open>
  \<^verbatim>\<open>read_sft_header_from_fp\<close>: header, version, stored CRC, byte-swap flag, comment,
  number of bins and the file positioned after the header and comment.
\<close>

definition read_sft_header_from_fp ::
  "env \<Rightarrow> FILE \<Rightarrow> (SFTtype \<times> UINT4 \<times> UINT8 \<times> bool \<times> cchar list option \<times> UINT4 \<times> FILE) option" where
  "read_sft_header_from_fp E fp =
     (case read_SFTversion_from_fp fp of
        None \<Rightarrow> None
      | Some (ver, need_swap) \<Rightarrow>
          if ver = 2
          then (case read_v2_header_from_fp E fp need_swap of
                  None \<Rightarrow> None
                | Some (head, nsamples, header_crc, ref_crc, comm, fp') \<Rightarrow>
                    if sint (gpsSeconds (epoch head)) < 0 \<or> sint (gpsNanoSeconds (epoch head)) < 0
                       \<or> 1000000000 \<le> sint (gpsNanoSeconds (epoch head))
                    then None
                    else if fp_le (deltaF head) REAL8_0 then None
                    else if fp_lt (f0 head) REAL8_0 then None
                    else Some (head, ver, ref_crc, need_swap, comm, nsamples, fp'))
          else None)"

section \<open>Writer\<close>

text \<open>The memory image of the sample array: \<^verbatim>\<open>REAL,IMAG,REAL,IMAG,...\<close>.\<close>

definition data_image :: "COMPLEX8 list \<Rightarrow> cchar list" where
  "data_image xs = concat (map (\<lambda>(re, im). le_bytes 4 re @ le_bytes 4 im) xs)"

text \<open>
  The string built in the buffer \<^verbatim>\<open>_SFTcomment\<close> by \<^verbatim>\<open>strcpy\<close> and \<^verbatim>\<open>strcat\<close>: the name
  of the SFT, then \<^verbatim>\<open>"; "\<close> and the caller's comment when there is one.  The buffer holds
  it with its terminator.
\<close>

definition SFTcomment_string :: "cchar list \<Rightarrow> cchar list option \<Rightarrow> cchar list" where
  "SFTcomment_string nm SFTcomment =
     (case SFTcomment of None \<Rightarrow> nm | Some c \<Rightarrow> nm @ ''; '' @ c)"

definition SFTcomment_buffer :: "cchar list \<Rightarrow> cchar list option \<Rightarrow> cchar list" where
  "SFTcomment_buffer nm SFTcomment = SFTcomment_string nm SFTcomment @ [NUL]"

definition SFTcomment_len :: "cchar list \<Rightarrow> cchar list option \<Rightarrow> UINT4" where
  "SFTcomment_len nm SFTcomment =
     (case SFTcomment of
        None \<Rightarrow> of_nat (length nm) + 1
      | Some c \<Rightarrow> of_nat (length nm) + 1 + (of_nat (length c) + 2))"

text \<open>The raw header filled out by the writer, checksum still 0.\<close>

definition writer_rawheader :: "env \<Rightarrow> SFTtype \<Rightarrow> COMPLEX8 list \<Rightarrow> cchar list option \<Rightarrow> SFT_header_v2_t" where
  "writer_rawheader E sft xs SFTcomment =
     (let comment_len = SFTcomment_len (name sft) SFTcomment;
          pad_len = (8 - comment_len mod 8) mod 8
      in \<lparr> rh_version = REAL8_2,
           rh_gps_sec = gpsSeconds (epoch sft),
           rh_gps_nsec = gpsNanoSeconds (epoch sft),
           rh_tbase = TSFTfromDFreq E (deltaF sft),
           rh_first_frequency_index = word_of_int (fp_lround E (fp_div E (f0 sft) (deltaF sft))),
           rh_nsamples = of_nat (length xs),
           rh_crc64 = 0,
           rh_detector = [c_index (name sft) 0, c_index (name sft) 1],
           rh_padding = [NUL, NUL],
           rh_comment_length = comment_len + pad_len \<rparr>)"

text \<open>
  \<^verbatim>\<open>XLALWriteSFT2fp\<close>.  The stream \<open>fp\<close> is the list of bytes written to it so far
  (\<open>None\<close> for a \<^verbatim>\<open>NULL\<close> pointer); the result is the stream after the write.  The
  stream accepts every write and memory allocation succeeds.
\<close>

definition XLALWriteSFT2fp ::
  "env \<Rightarrow> SFTtype option \<Rightarrow> cchar list option \<Rightarrow> cchar list option \<Rightarrow> xlal_errno + cchar list" where
  "XLALWriteSFT2fp E sftp fp SFTcomment =
     (case sftp of
        None \<Rightarrow> Inl XLAL_EINVAL
      | Some sft \<Rightarrow>
         (case data sft of
            None \<Rightarrow> Inl XLAL_EINVAL
          | Some xs \<Rightarrow>
              if fp_le (deltaF sft) REAL8_0 \<or> fp_lt (f0 sft) REAL8_0 \<or> (of_nat (length xs) :: UINT4) = 0
              then Inl XLAL_EINVAL
              else if \<not> (0 \<le> sint (gpsSeconds (epoch sft)) \<and> 0 \<le> sint (gpsNanoSeconds (epoch sft)))
              then Inl XLAL_EINVAL
              else if \<not> sint (gpsNanoSeconds (epoch sft)) < 1000000000
              then Inl XLAL_EINVAL
              else if \<not> XLALIsValidCWDetector E (name sft) then Inl XLAL_EINVAL
              else
                (case fp of
                   None \<Rightarrow> Inl XLAL_EINVAL
                 | Some out \<Rightarrow>
                     let comment_len = SFTcomment_len (name sft) SFTcomment;
                         buf = SFTcomment_buffer (name sft) SFTcomment;
                         pad_len = (8 - comment_len mod 8) mod 8;
                         pad = replicate 7 NUL;
                         rawheader = writer_rawheader E sft xs SFTcomment;
                         crc0 = calc_crc64 (Some (rawheader_image rawheader)) 48 (NOT 0);
                         crc1 = calc_crc64 (Some buf) comment_len crc0;
                         crc2 = calc_crc64 (Some pad) pad_len crc1;
                         crc3 = calc_crc64 (Some (data_image xs)) (of_nat (length xs * 8)) crc2
                     in Inr (out @ rawheader_image (rawheader\<lparr>rh_crc64 := crc3\<rparr>)
                               @ take (unat comment_len) buf @ take (unat pad_len) pad
                               @ data_image xs))))"

section \<open>Checksum validation\<close>

text \<open>
  The loop of \<^verbatim>\<open>has_valid_v2_crc64\<close> over the sample bytes, in blocks of
  \<^verbatim>\<open>BLOCKSIZE\<close>; \<open>None\<close> when a block cannot be read in full.
\<close>

definition BLOCKSIZE :: UINT4 where
  "BLOCKSIZE = 8192 * 8"

function crc_data_blocks :: "UINT4 \<Rightarrow> UINT8 \<Rightarrow> FILE \<Rightarrow> UINT8 option" where
  "crc_data_blocks data_len computed_crc fp =
     (if 0 < data_len
      then let toread = (if BLOCKSIZE < data_len then BLOCKSIZE else data_len);
               (block, fp') = fread (unat toread) fp
           in if length block \<noteq> unat toread then None
              else crc_data_blocks (data_len - toread) (calc_crc64 (Some block) toread computed_crc) fp'
      else Some computed_crc)"
  by pat_completeness auto
termination
proof (relation "measure (\<lambda>(data_len, c, fp). unat data_len)")
  show "wf (measure (\<lambda>(data_len, c, fp). unat data_len))" by simp
next
  fix data_len :: UINT4 and computed_crc :: UINT8 and fp :: FILE and toread x y
  assume pos: "0 < data_len"
    and tr: "toread = (if BLOCKSIZE < data_len then BLOCKSIZE else data_len)"
  have "0 < toread" using pos tr by (auto simp: BLOCKSIZE_def)
  moreover have "toread \<le> data_len" using tr by auto
  ultimately have "unat (data_len - toread) < unat data_len"
    by (simp add: unat_sub word_less_nat_alt word_le_nat_alt)
  then show "((data_len - toread, calc_crc64 (Some x) toread computed_crc, y), data_len, computed_crc, fp)
       \<in> measure (\<lambda>(data_len, c, fp). unat data_len)"
    by simp
qed

declare crc_data_blocks.simps [simp del]

text \<open>
  \<^verbatim>\<open>has_valid_v2_crc64\<close> returns a \<^verbatim>\<open>BOOLEAN\<close>, an unsigned char: \<^verbatim>\<open>FALSE\<close> is 0, the value
  of a comparison is 0 or 1, and \<^verbatim>\<open>return -1\<close> is 255.
\<close>

type_synonym BOOLEAN = "8 word"

definition has_valid_v2_crc64 :: "env \<Rightarrow> FILE option \<Rightarrow> BOOLEAN" where
  "has_valid_v2_crc64 E fpp =
     (case fpp of
        None \<Rightarrow> 0
      | Some fp \<Rightarrow>
         (case read_SFTversion_from_fp fp of
            None \<Rightarrow> - 1
          | Some (version, need_swap) \<Rightarrow>
              if version \<noteq> 2 then - 1
              else
                (case read_v2_header_from_fp E fp need_swap of
                   None \<Rightarrow> 0
                 | Some (header, numBins, computed_crc, ref_crc, SFTcomment, fp') \<Rightarrow>
                     (case crc_data_blocks (numBins * 8) computed_crc fp' of
                        None \<Rightarrow> 0
                      | Some crc \<Rightarrow> if crc = ref_crc then 1 else 0))))"

section \<open>Catalog\<close>

text \<open>
  The locator of an SFT block: file name, offset of the block in the file and the index
  used by the loader.  A descriptor holds the header without sample data.
\<close>

record SFTLocator =
  fname :: "cchar list"
  offset :: int
  isft :: UINT4

record SFTDescriptor =
  locator :: "SFTLocator option"
  header :: SFTtype
  comment :: "cchar list option"
  numBins :: UINT4
  version :: UINT4
  crc64 :: UINT8

text \<open>The file system: the contents of the files that can be opened for reading.\<close>

type_synonym filesys = "cchar list \<Rightarrow> cchar list option"

definition fopen :: "filesys \<Rightarrow> cchar list \<Rightarrow> FILE option" where
  "fopen fs nm = map_option (\<lambda>bs. \<lparr>fbytes = bs, fpos = 0\<rparr>) (fs nm)"





section \<open>File and glob resolver\<close>

text \<open>
  What \<^verbatim>\<open>XLALFindFiles\<close> asks of its environment: the names \<^verbatim>\<open>readdir\<close> delivers for a
  directory (\<open>None\<close> when \<^verbatim>\<open>opendir\<close> fails), the tokens \<^verbatim>\<open>XLALParseDataFile\<close> finds in a
  list file (\<open>None\<close> when it fails), and the verdict of the glob matcher \<^verbatim>\<open>amatch\<close> on a name
  and a pattern, which is kept abstract: nothing proved below depends on which names it
  accepts.
\<close>

record dirsys =
  readdir :: "cchar list \<Rightarrow> cchar list list option"
  XLALParseDataFile :: "cchar list \<Rightarrow> cchar list list option"
  amatch :: "cchar list \<Rightarrow> cchar list \<Rightarrow> bool"

text \<open>
  Modelled from the spec: \<^verbatim>\<open>XLALSortStringVector\<close> of \<^verbatim>\<open>StringVector.c\<close>, which is not among
  the sources: it sorts the names alphabetically, in the order of \<^verbatim>\<open>strcmp\<close>.
\<close>

definition XLALSortStringVector :: "cchar list list \<Rightarrow> cchar list list" where
  "XLALSortStringVector v = sort v"

definition is_pattern :: "cchar list \<Rightarrow> bool" where
  "is_pattern c =
     (dropWhile (\<lambda>x. x \<noteq> CHR ''*'' \<and> x \<noteq> CHR ''?'' \<and> x \<noteq> CHR ''['') c \<noteq> [])"

text \<open>\<^verbatim>\<open>strncmp(s, prefix, strlen(prefix)) == 0\<close>.\<close>

definition has_prefix :: "cchar list \<Rightarrow> cchar list \<Rightarrow> bool" where
  "has_prefix pre s = (take (length pre) s = pre)"

text \<open>A name of the list file, with the prefixes of \<^verbatim>\<open>ligo_data_find\<close> cut down to the slash.\<close>

definition strip_file_prefix :: "cchar list \<Rightarrow> cchar list" where
  "strip_file_prefix ptr1 =
     (if has_prefix ''file://localhost/'' ptr1 then drop (length ''file://localhost/'' - 1) ptr1
      else if has_prefix ''file:///'' ptr1 then drop (length ''file:///'' - 1) ptr1
      else ptr1)"

text \<open>
  The directory path and the file pattern of a glob string: split at the last \<^verbatim>\<open>'/'\<close>, the
  directory is \<^verbatim>\<open>"."\<close> when there is none.
\<close>

definition split_dir :: "cchar list \<Rightarrow> cchar list \<times> cchar list" where
  "split_dir globstring =
     (if CHR ''/'' \<in> set globstring
      then (rev (tl (dropWhile (\<lambda>x. x \<noteq> CHR ''/'') (rev globstring))),
            rev (takeWhile (\<lambda>x. x \<noteq> CHR ''/'') (rev globstring)))
      else (''.'', globstring))"

text \<open>
  The end of \<^verbatim>\<open>XLALFindFiles\<close>: an empty list is an error, a list of more than one name is
  sorted.
\<close>

definition finish_filelist :: "cchar list list \<Rightarrow> xlal_errno + cchar list list" where
  "finish_filelist filelist =
     (if length filelist = 0 then Inl XLAL_EINVAL
      else Inr (if 1 < length filelist then XLALSortStringVector filelist else filelist))"

text \<open>
  \<^verbatim>\<open>XLALFindFiles\<close>, and the loop of its multi-pattern branch, which calls it on every
  pattern before a separator and once on what follows the last separator (there a failure
  adds nothing).  Memory allocation succeeds.
\<close>

function XLALFindFiles :: "dirsys \<Rightarrow> cchar list \<Rightarrow> xlal_errno + cchar list list"
  and multi_pattern_loop :: "dirsys \<Rightarrow> cchar list \<Rightarrow> cchar list list \<Rightarrow> xlal_errno + cchar list list"
where
  "XLALFindFiles S globstring =
     (if CHR '';'' \<in> set globstring then multi_pattern_loop S globstring []
      else if has_prefix ''list:'' globstring
      then (case XLALParseDataFile S (drop (length ''list:'') globstring) of
              None \<Rightarrow> Inl XLAL_EFUNC
            | Some tokens \<Rightarrow>
                if length tokens = 0 then Inl XLAL_EINVAL
                else finish_filelist (map strip_file_prefix tokens))
      else if is_pattern globstring
      then (let (dname, fpattern) = split_dir globstring
            in case readdir S dname of
                 None \<Rightarrow> Inl XLAL_EIO
               | Some entries \<Rightarrow>
                   finish_filelist
                     (map (\<lambda>thisFname. dname @ ''/'' @ thisFname)
                        (filter (\<lambda>thisFname. amatch S thisFname fpattern
                                   \<and> thisFname \<noteq> ''.'' \<and> thisFname \<noteq> ''..'') entries)))
      else finish_filelist [globstring])"
| "multi_pattern_loop S ptr1 filelist =
     (if CHR '';'' \<in> set ptr1
      then (let thisFname = takeWhile (\<lambda>x. x \<noteq> CHR '';'') ptr1;
                rest = tl (dropWhile (\<lambda>x. x \<noteq> CHR '';'') ptr1)
            in case XLALFindFiles S thisFname of
                 Inr ret \<Rightarrow> multi_pattern_loop S rest (filelist @ ret)
               | Inl e \<Rightarrow> Inl XLAL_EFUNC)
      else (case XLALFindFiles S ptr1 of
              Inr ret \<Rightarrow> finish_filelist (filelist @ ret)
            | Inl e \<Rightarrow> finish_filelist filelist))"
  by pat_completeness auto
termination
proof (relation "measure (\<lambda>x. case x of
          Inl (S, g) \<Rightarrow> 3 * length g + (if CHR '';'' \<in> set g then 2 else 0)
        | Inr (S, p, fl) \<Rightarrow> 3 * length p + 1)")
  show "wf (measure (\<lambda>x. case x of
          Inl (S, g) \<Rightarrow> 3 * length g + (if CHR '';'' \<in> set g then 2 else 0)
        | Inr (S, p, fl) \<Rightarrow> 3 * length p + 1))" by simp
next
  fix S :: dirsys and globstring :: "cchar list"
  assume "CHR '';'' \<in> set globstring"
  then show "(Inr (S, globstring, []), Inl (S, globstring)) \<in> measure (\<lambda>x. case x of
          Inl (S, g) \<Rightarrow> 3 * length g + (if CHR '';'' \<in> set g then 2 else 0)
        | Inr (S, p, fl) \<Rightarrow> 3 * length p + 1)" by simp
next
  fix S :: dirsys and ptr1 :: "cchar list" and filelist :: "cchar list list" and x
  assume s: "CHR '';'' \<in> set ptr1" and x: "x = takeWhile (\<lambda>x. x \<noteq> CHR '';'') ptr1"
  have "length x < length ptr1"
    using s unfolding x by (induction ptr1) auto
  then show "(Inl (S, x), Inr (S, ptr1, filelist)) \<in> measure (\<lambda>x. case x of
          Inl (S, g) \<Rightarrow> 3 * length g + (if CHR '';'' \<in> set g then 2 else 0)
        | Inr (S, p, fl) \<Rightarrow> 3 * length p + 1)" by simp
next
  fix S :: dirsys and ptr1 :: "cchar list" and filelist :: "cchar list list" and x xa x2
  assume s: "CHR '';'' \<in> set ptr1" and xa: "xa = tl (dropWhile (\<lambda>x. x \<noteq> CHR '';'') ptr1)"
  have "length (dropWhile (\<lambda>x. x \<noteq> CHR '';'') ptr1) \<le> length ptr1"
    by (rule length_dropWhile_le)
  moreover have "dropWhile (\<lambda>x. x \<noteq> CHR '';'') ptr1 \<noteq> []" using s by simp
  ultimately have "length xa < length ptr1"
    unfolding xa by (cases "dropWhile (\<lambda>x. x \<noteq> CHR '';'') ptr1") auto
  then show "(Inr (S, xa, filelist @ x2), Inr (S, ptr1, filelist)) \<in> measure (\<lambda>x. case x of
          Inl (S, g) \<Rightarrow> 3 * length g + (if CHR '';'' \<in> set g then 2 else 0)
        | Inr (S, p, fl) \<Rightarrow> 3 * length p + 1)" by simp
next
  fix S :: dirsys and ptr1 :: "cchar list" and filelist :: "cchar list list"
  assume "CHR '';'' \<notin> set ptr1"
  then show "(Inl (S, ptr1), Inr (S, ptr1, filelist)) \<in> measure (\<lambda>x. case x of
          Inl (S, g) \<Rightarrow> 3 * length g + (if CHR '';'' \<in> set g then 2 else 0)
        | Inr (S, p, fl) \<Rightarrow> 3 * length p + 1)" by simp
qed

declare XLALFindFiles.simps [simp del] multi_pattern_loop.simps [simp del]

section \<open>SFDB importer: science-mode filter\<close>


definition SFDB_DET_FIRST :: int where "SFDB_DET_FIRST = 1"
definition SFDB_DET_LAST :: int where "SFDB_DET_LAST = 4"

definition SFDB_detector_names :: "int \<Rightarrow> cchar list option" where
  "SFDB_detector_names Y =
     (if Y = 1 then Some ''V1'' else if Y = 2 then Some ''H1'' else if Y = 3 then Some ''L1''
      else None)"




text \<open>\<^verbatim>\<open>strstr(haystack, needle) != NULL\<close>.\<close>

definition strstr :: "cchar list \<Rightarrow> cchar list \<Rightarrow> bool" where
  "strstr haystack needle =
     (\<exists>i \<in> set [0..<Suc (length haystack)]. take (length needle) (drop i haystack) = needle)"

text \<open>
  The loop of \<^verbatim>\<open>XLALReadSFDB\<close> over the timestamp files, from file \<open>X\<close> on: the detector
  names found in the name of each starting-timestamps file are appended to \<open>detectors\<close>; a
  file name without any of them and unequal numbers of starting and finishing timestamps
  are errors.
\<close>

fun timestamp_files_loop ::
  "cchar list list \<Rightarrow> LIGOTimeGPS list list \<Rightarrow> LIGOTimeGPS list list \<Rightarrow> cchar list list
     \<Rightarrow> xlal_errno + cchar list list" where
  "timestamp_files_loop [] startingTS endingTS detectors = Inr detectors"
| "timestamp_files_loop (filenameSt # fnames) startingTS endingTS detectors =
     (let found = filter (\<lambda>nm. strstr filenameSt nm)
                    (map (\<lambda>Y. the (SFDB_detector_names Y)) [SFDB_DET_FIRST..SFDB_DET_LAST - 1])
      in if found = [] then Inl XLAL_EINVAL
         else if length (hd startingTS) \<noteq> length (hd endingTS) then Inl XLAL_EINVAL
         else timestamp_files_loop fnames (tl startingTS) (tl endingTS) (detectors @ found))"


section \<open>Catalog builder\<close>

record SFTConstraints =
  detector :: "cchar list option"
  minStartTime :: "LIGOTimeGPS option"
  maxStartTime :: "LIGOTimeGPS option"
  timestamps :: "LIGOTimeGPS list option"

definition XLALCWGPSinRange :: "env \<Rightarrow> LIGOTimeGPS \<Rightarrow> LIGOTimeGPS option \<Rightarrow> LIGOTimeGPS option \<Rightarrow> int" where
  "XLALCWGPSinRange E gps minGPS maxGPS =
     (if (case minGPS of None \<Rightarrow> False | Some mn \<Rightarrow> fp_lt (GPS2REAL8 E gps) (GPS2REAL8 E mn))
      then - 1
      else if (case maxGPS of None \<Rightarrow> False | Some mx \<Rightarrow> fp_le (GPS2REAL8 E mx) (GPS2REAL8 E gps))
      then 1
      else 0)"

definition GPSEQUAL :: "LIGOTimeGPS \<Rightarrow> LIGOTimeGPS \<Rightarrow> bool" where
  "GPSEQUAL gps1 gps2 =
     (gpsSeconds gps1 = gpsSeconds gps2 \<and> gpsNanoSeconds gps1 = gpsNanoSeconds gps2)"

definition timestamp_in_list :: "LIGOTimeGPS \<Rightarrow> LIGOTimeGPS list option \<Rightarrow> bool" where
  "timestamp_in_list timestamp lst =
     (case lst of
        None \<Rightarrow> False
      | Some els \<Rightarrow>
          (\<exists>el \<in> set els. gpsSeconds timestamp = gpsSeconds el
                          \<and> gpsNanoSeconds timestamp = gpsNanoSeconds el))"

text \<open>The consistency constraints for two SFT blocks of one merged file.\<close>

definition consistent_mSFT_header ::
  "env \<Rightarrow> SFTtype \<Rightarrow> UINT4 \<Rightarrow> UINT4 \<Rightarrow> SFTtype \<Rightarrow> UINT4 \<Rightarrow> UINT4 \<Rightarrow> bool" where
  "consistent_mSFT_header E header1 version1 nsamples1 header2 version2 nsamples2 =
     (if c_index (name header1) 0 \<noteq> c_index (name header2) 0
         \<or> c_index (name header1) 1 \<noteq> c_index (name header2) 1 then False
      else if version1 \<noteq> version2 then False
      else if fp_le (GPS2REAL8 E (epoch header2)) (GPS2REAL8 E (epoch header1)) then False
      else if \<not> fp_eq (deltaF header1) (deltaF header2) then False
      else if \<not> fp_eq (f0 header1) (f0 header2) then False
      else if nsamples1 \<noteq> nsamples2 then False
      else True)"

text \<open>Does a block satisfy the constraints of the user (\<open>None\<close>: no constraints)?\<close>

definition want_this_block :: "env \<Rightarrow> SFTConstraints option \<Rightarrow> SFTtype \<Rightarrow> bool" where
  "want_this_block E constraints this_header =
     (case constraints of
        None \<Rightarrow> True
      | Some c \<Rightarrow>
          \<not> (case detector c of None \<Rightarrow> False | Some d \<Rightarrow> take 2 d \<noteq> take 2 (name this_header))
          \<and> \<not> XLALCWGPSinRange E (epoch this_header) (minStartTime c) (maxStartTime c) \<noteq> 0
          \<and> \<not> (timestamps c \<noteq> None \<and> \<not> timestamp_in_list (epoch this_header) (timestamps c)))"

text \<open>
  The loop over the SFT blocks of one open file.  \<open>mprev\<close> is the previous block of the
  file (\<open>None\<close> while \<^verbatim>\<open>mfirst_block\<close> is true), \<open>ret\<close> the descriptors collected so far.
\<close>

function scan_blocks ::
  "env \<Rightarrow> cchar list \<Rightarrow> nat \<Rightarrow> SFTConstraints option \<Rightarrow> FILE \<Rightarrow> (SFTtype \<times> UINT4 \<times> UINT4) option
     \<Rightarrow> SFTDescriptor list \<Rightarrow> xlal_errno + SFTDescriptor list" where
  "scan_blocks E fnm file_len constraints fp mprev ret =
     (if fpos fp < file_len
      then (case read_sft_header_from_fp E fp of
              None \<Rightarrow> Inl XLAL_EDATA
            | Some (this_header, this_version, this_crc, endian, this_comment, this_nsamples, fp') \<Rightarrow>
                if (case mprev of
                      None \<Rightarrow> False
                    | Some (mprev_header, mprev_version, mprev_nsamples) \<Rightarrow>
                        \<not> consistent_mSFT_header E mprev_header mprev_version mprev_nsamples
                             this_header this_version this_nsamples)
                then Inl XLAL_EDATA
                else
                  let ret' = (if want_this_block E constraints this_header
                              then ret @ [\<lparr> locator = Some \<lparr> fname = fnm, offset = int (fpos fp), isft = 0 \<rparr>,
                                            header = this_header,
                                            comment = this_comment,
                                            numBins = this_nsamples,
                                            version = this_version,
                                            crc64 = this_crc \<rparr>]
                              else ret)
                  in if file_len \<le> fpos fp' + unat this_nsamples * 8 then Inr ret'
                     else scan_blocks E fnm file_len constraints
                            (fseek_cur (unat (this_nsamples * 8)) fp')
                            (Some (this_header, this_version, this_nsamples)) ret')
      else Inr ret)"
  by pat_completeness auto
termination
proof (relation "measure (\<lambda>(E, fnm, file_len, constraints, fp, mprev, ret). file_len - fpos fp)",
       goal_cases)
  case 1
  show ?case by simp
next
  case (2 E fnm file_len constraints fp mprev ret x2 this_header y this_version ya this_crc yb
          endian yc this_comment yd this_nsamples fp' ret')
  then have r: "read_sft_header_from_fp E fp
                  = Some (this_header, this_version, this_crc, endian, this_comment, this_nsamples, fp')"
    by simp
  then obtain hc where v2: "read_v2_header_from_fp E fp endian
                  = Some (this_header, this_nsamples, hc, this_crc, this_comment, fp')"
    unfolding read_sft_header_from_fp_def
    by (auto split: option.splits prod.splits if_splits)
  obtain raw fp1 where f1: "fread 48 fp = (raw, fp1)" by (cases "fread 48 fp")
  obtain comm fp2
    where f2: "fread (unat (rh_comment_length (rawheader_of_image endian raw))) fp1 = (comm, fp2)"
    by (cases "fread (unat (rh_comment_length (rawheader_of_image endian raw))) fp1")
  from v2 have l: "length raw = 48"
    unfolding read_v2_header_from_fp_def f1 by (simp split: if_splits)
  from v2 have "fp' = fp1 \<or> fp' = fp2"
    unfolding read_v2_header_from_fp_def f1 Let_def prod.case f2
    by (simp split: if_splits)
  moreover have "fpos fp1 = fpos fp + length raw" "fpos fp2 = fpos fp1 + length comm"
    using f1 f2 by (auto simp: fread_def Let_def)
  ultimately have "fpos fp < fpos fp'" using l by auto
  with 2(1) show ?case by (simp add: fseek_cur_def)
qed

declare scan_blocks.simps [simp del]

text \<open>
  The loop over the matched files: a file that cannot be opened or has length 0 is an
  error, and so is every error in one of its blocks.
\<close>

fun scan_files ::
  "env \<Rightarrow> filesys \<Rightarrow> SFTConstraints option \<Rightarrow> cchar list list \<Rightarrow> SFTDescriptor list
     \<Rightarrow> xlal_errno + SFTDescriptor list" where
  "scan_files E fs constraints [] ret = Inr ret"
| "scan_files E fs constraints (fnm # fnames) ret =
     (case fopen fs fnm of
        None \<Rightarrow> Inl XLAL_EIO
      | Some fp \<Rightarrow>
          if length (fbytes fp) = 0 then Inl XLAL_EIO
          else (case scan_blocks E fnm (length (fbytes fp)) constraints fp None ret of
                  Inl e \<Rightarrow> Inl e
                | Inr ret' \<Rightarrow> scan_files E fs constraints fnames ret'))"

text \<open>Compare two descriptors by GPS epoch, then by start frequency.\<close>

definition compareSFTdesc :: "env \<Rightarrow> SFTDescriptor \<Rightarrow> SFTDescriptor \<Rightarrow> int" where
  "compareSFTdesc E desc1 desc2 =
     (if fp_lt (GPS2REAL8 E (epoch (header desc1))) (GPS2REAL8 E (epoch (header desc2))) then - 1
      else if fp_lt (GPS2REAL8 E (epoch (header desc2))) (GPS2REAL8 E (epoch (header desc1))) then 1
      else if fp_lt (f0 (header desc1)) (f0 (header desc2)) then - 1
      else if fp_lt (f0 (header desc2)) (f0 (header desc1)) then 1
      else 0)"

text \<open>
  The C library's \<^verbatim>\<open>qsort\<close>, of which only the contract is known: here it is sorting by
  insertion, with the comparison function of the caller.
\<close>

fun qsort_insert :: "('a \<Rightarrow> 'a \<Rightarrow> int) \<Rightarrow> 'a \<Rightarrow> 'a list \<Rightarrow> 'a list" where
  "qsort_insert cmp x [] = [x]"
| "qsort_insert cmp x (y # ys) = (if cmp x y \<le> 0 then x # y # ys else y # qsort_insert cmp x ys)"

definition qsort :: "('a \<Rightarrow> 'a \<Rightarrow> int) \<Rightarrow> 'a list \<Rightarrow> 'a list" where
  "qsort cmp xs = foldr (qsort_insert cmp) xs []"

text \<open>
  The final check of the timestamps constraint: every requested timestamp within
  \<open>[minStartTime, maxStartTime)\<close> has a descriptor with the same epoch.
\<close>

definition timestamps_all_found :: "env \<Rightarrow> SFTConstraints \<Rightarrow> LIGOTimeGPS list \<Rightarrow> SFTDescriptor list \<Rightarrow> bool" where
  "timestamps_all_found E c ts ret =
     (\<forall>ts_i \<in> set ts.
        XLALCWGPSinRange E ts_i (minStartTime c) (maxStartTime c) = 0 \<longrightarrow>
        (\<exists>d \<in> set ret. gpsSeconds ts_i = gpsSeconds (epoch (header d))
                       \<and> gpsNanoSeconds ts_i = gpsNanoSeconds (epoch (header d))))"

text \<open>
  \<^verbatim>\<open>XLALSFTdataFind\<close>.  The file pattern is \<open>None\<close> for a \<^verbatim>\<open>NULL\<close> pointer, and so are the
  constraints.  Memory allocation succeeds.
\<close>

definition XLALSFTdataFind ::
  "env \<Rightarrow> dirsys \<Rightarrow> filesys \<Rightarrow> cchar list option \<Rightarrow> SFTConstraints option
     \<Rightarrow> xlal_errno + SFTDescriptor list" where
  "XLALSFTdataFind E S fs file_pattern constraints =
     (case file_pattern of
        None \<Rightarrow> Inl XLAL_EINVAL
      | Some pat \<Rightarrow>
          if (case constraints of
                None \<Rightarrow> False
              | Some c \<Rightarrow> (case detector c of None \<Rightarrow> False | Some d \<Rightarrow> \<not> XLALIsValidCWDetector E d))
          then Inl XLAL_EDOM
          else
            (case XLALFindFiles S pat of
               Inl e \<Rightarrow> Inl XLAL_EFUNC
             | Inr fnames \<Rightarrow>
                 (case scan_files E fs constraints fnames [] of
                    Inl e \<Rightarrow> Inl e
                  | Inr ret \<Rightarrow>
                      if (case constraints of
                            None \<Rightarrow> False
                          | Some c \<Rightarrow> (case timestamps c of
                                         None \<Rightarrow> False
                                       | Some ts \<Rightarrow> \<not> timestamps_all_found E c ts ret))
                      then Inl XLAL_EFAILED
                      else if \<exists>d \<in> set ret. \<not> fp_eq (deltaF (header d)) (deltaF (header (hd ret)))
                      then Inl XLAL_EDATA
                      else Inr (qsort (compareSFTdesc E) ret))))"

text \<open>
  The SFT blocks of a file as the loop of the builder visits them, beginning at the
  position of \<open>fp\<close>: header, version and number of samples of each block that decodes.
\<close>

function read_blocks :: "env \<Rightarrow> nat \<Rightarrow> FILE \<Rightarrow> (SFTtype \<times> UINT4 \<times> UINT4) list" where
  "read_blocks E file_len fp =
     (if fpos fp < file_len
      then (case read_sft_header_from_fp E fp of
              None \<Rightarrow> []
            | Some (this_header, this_version, this_crc, endian, this_comment, this_nsamples, fp') \<Rightarrow>
                (this_header, this_version, this_nsamples) #
                (if file_len \<le> fpos fp' + unat this_nsamples * 8 then []
                 else read_blocks E file_len (fseek_cur (unat (this_nsamples * 8)) fp')))
      else [])"
  by pat_completeness auto
termination
proof (relation "measure (\<lambda>(E, file_len, fp). file_len - fpos fp)", goal_cases)
  case 1
  show ?case by simp
next
  case (2 E file_len fp x2 this_header y this_version ya this_crc yb endian yc this_comment yd
          this_nsamples fp')
  then have r: "read_sft_header_from_fp E fp
                  = Some (this_header, this_version, this_crc, endian, this_comment, this_nsamples, fp')"
    by simp
  then obtain hc where v2: "read_v2_header_from_fp E fp endian
                  = Some (this_header, this_nsamples, hc, this_crc, this_comment, fp')"
    unfolding read_sft_header_from_fp_def
    by (auto split: option.splits prod.splits if_splits)
  obtain raw fp1 where f1: "fread 48 fp = (raw, fp1)" by (cases "fread 48 fp")
  obtain comm fp2
    where f2: "fread (unat (rh_comment_length (rawheader_of_image endian raw))) fp1 = (comm, fp2)"
    by (cases "fread (unat (rh_comment_length (rawheader_of_image endian raw))) fp1")
  from v2 have l: "length raw = 48"
    unfolding read_v2_header_from_fp_def f1 by (simp split: if_splits)
  from v2 have "fp' = fp1 \<or> fp' = fp2"
    unfolding read_v2_header_from_fp_def f1 Let_def prod.case f2
    by (simp split: if_splits)
  moreover have "fpos fp1 = fpos fp + length raw" "fpos fp2 = fpos fp1 + length comm"
    using f1 f2 by (auto simp: fread_def Let_def)
  ultimately have "fpos fp < fpos fp'" using l by auto
  with 2(1) show ?case by (simp add: fseek_cur_def)
qed

declare read_blocks.simps [simp del]


section \<open>Segment loader\<close>

text \<open>
  The fudge factors \<^verbatim>\<open>1 + 10 * LAL_REAL8_EPS\<close> and \<^verbatim>\<open>1 - 10 * LAL_REAL8_EPS\<close> are constants
  of the compiler: ten units in the last place above 1, and twenty below.
\<close>

definition fudge_up :: REAL8 where "fudge_up = 0x3FF000000000000A"
definition fudge_down :: REAL8 where "fudge_down = 0x3FEFFFFFFFFFFFEC"

text \<open>The cast to \<^verbatim>\<open>UINT4\<close> is defined in C for values in range only; here it wraps.\<close>

definition XLALRoundFrequencyDownToSFTBin :: "env \<Rightarrow> REAL8 \<Rightarrow> REAL8 \<Rightarrow> UINT4" where
  "XLALRoundFrequencyDownToSFTBin E freq df =
     word_of_int (fp_floor E (fp_mul E (fp_div E freq df) fudge_up))"

definition XLALRoundFrequencyUpToSFTBin :: "env \<Rightarrow> REAL8 \<Rightarrow> REAL8 \<Rightarrow> UINT4" where
  "XLALRoundFrequencyUpToSFTBin E freq df =
     word_of_int (fp_ceil E (fp_mul E (fp_div E freq df) fudge_down))"

text \<open>
  An SFT with the sample array allocated for it.  \<open>None\<close> marks an element of the array
  that has not been written.
\<close>

record SFTbuf =
  b_name :: "cchar list"
  b_epoch :: LIGOTimeGPS
  b_f0 :: REAL8
  b_deltaF :: REAL8
  b_data :: "COMPLEX8 option list"

text \<open>
  Modelled from the spec: \<^verbatim>\<open>XLALCreateSFT\<close> of \<^verbatim>\<open>SFTutils.c\<close>, which is not among the
  sources, and which \<^verbatim>\<open>XLALCreateSFTVector\<close> calls for each of its SFTs: it allocates an SFT
  with a dense sample array of the given length, and writes no sample.
\<close>

definition XLALCreateSFT :: "UINT4 \<Rightarrow> SFTbuf" where
  "XLALCreateSFT nBins =
     \<lparr> b_name = [], b_epoch = \<lparr> gpsSeconds = 0, gpsNanoSeconds = 0 \<rparr>,
       b_f0 = 0, b_deltaF = 0, b_data = replicate (unat nBins) None \<rparr>"

text \<open>\<^verbatim>\<open>memcpy\<close> of some elements into an array at an offset.\<close>

definition array_write :: "'a list \<Rightarrow> nat \<Rightarrow> 'a list \<Rightarrow> 'a list" where
  "array_write arr off vals = take off arr @ vals @ drop (off + length vals) arr"

text \<open>The samples held in a stretch of bytes of a file, byte-swapped if required.\<close>

fun samples_of_bytes :: "bool \<Rightarrow> cchar list \<Rightarrow> COMPLEX8 list" where
  "samples_of_bytes swapEndian (r0 # r1 # r2 # r3 # i0 # i1 # i2 # i3 # rest) =
     (let re = [r0, r1, r2, r3]; im = [i0, i1, i2, i3]
      in (le_word (if swapEndian then endian_swap re else re),
          le_word (if swapEndian then endian_swap im else im))
         # samples_of_bytes swapEndian rest)"
| "samples_of_bytes swapEndian bs = []"

text \<open>
  \<^verbatim>\<open>read_sft_bins_from_fp\<close> for valid pointers: the last bin read, the value left in
  \<^verbatim>\<open>*firstBinRead\<close>, the SFT buffer and the file afterwards.  The offset of the first bin
  to read within the block is taken to fit \<^verbatim>\<open>INT4\<close>, so that the seek goes forward.
\<close>

definition read_sft_bins_from_fp ::
  "env \<Rightarrow> SFTbuf \<Rightarrow> UINT4 \<Rightarrow> UINT4 \<Rightarrow> FILE \<Rightarrow> UINT4 \<times> UINT4 \<times> SFTbuf \<times> FILE" where
  "read_sft_bins_from_fp E ret firstBin2read lastBin2read fp =
     (if lastBin2read < firstBin2read then (0, 1, ret, fp)
      else
        (case read_sft_header_from_fp E fp of
           None \<Rightarrow> (0, 2, ret, fp)
         | Some (hdr, vers, crc, swapEndian, comm, numSFTbins, fp1) \<Rightarrow>
             let ret1 = ret\<lparr> b_name := name hdr, b_epoch := epoch hdr,
                             b_f0 := f0 hdr, b_deltaF := deltaF hdr \<rparr>;
                 firstSFTbin = (word_of_int (fp_lround E (fp_div E (f0 hdr) (deltaF hdr))) :: UINT4);
                 lastSFTbin = firstSFTbin + numSFTbins - 1;
                 firstBin2read = (if firstBin2read < firstSFTbin then firstSFTbin else firstBin2read);
                 lastBin2read = (if lastSFTbin < lastBin2read then lastSFTbin else lastBin2read)
             in if lastBin2read < firstBin2read then (0, 0, ret1, fp1)
                else
                  let offsetBins = firstBin2read - firstSFTbin;
                      numBins2read = lastBin2read - firstBin2read + 1
                  in if length (b_data ret1) < unat numBins2read then (0, 1, ret1, fp1)
                     else
                       let fp2 = fseek_cur (unat offsetBins * 8) fp1;
                           (bytes, fp3) = fread (unat numBins2read * 8) fp2
                       in if length bytes \<noteq> unat numBins2read * 8 then (0, 4, ret1, fp3)
                          else
                            (lastBin2read, firstBin2read,
                             ret1\<lparr> b_data := array_write (b_data ret1) 0
                                                 (map Some (samples_of_bytes swapEndian bytes)),
                                    b_f0 := fp_mul E (fp_mul E REAL8_1 (fp_of_int E (uint firstBin2read)))
                                                  (deltaF hdr) \<rparr>,
                             fp3)))"

text \<open>The segments read so far of one SFT.\<close>

record SFTReadSegment =
  seg_first :: UINT4
  seg_last :: UINT4
  seg_epoch :: LIGOTimeGPS
  seg_lastfrom :: "SFTLocator option"

definition GPSZERO :: "LIGOTimeGPS \<Rightarrow> bool" where
  "GPSZERO gps = (gpsSeconds gps = 0 \<and> gpsNanoSeconds gps = 0)"

text \<open>\<^verbatim>\<open>strcmp\<close>, and the comparison of two descriptors by start frequency, file and offset.\<close>

definition strcmp :: "cchar list \<Rightarrow> cchar list \<Rightarrow> int" where
  "strcmp s1 s2 = (if s1 < s2 then - 1 else if s2 < s1 then 1 else 0)"

definition compareSFTloc :: "SFTDescriptor \<Rightarrow> SFTDescriptor \<Rightarrow> int" where
  "compareSFTloc desc1 desc2 =
     (if fp_lt (f0 (header desc1)) (f0 (header desc2)) then - 1
      else if fp_lt (f0 (header desc2)) (f0 (header desc1)) then 1
      else
        let s = strcmp (fname (the (locator desc1))) (fname (the (locator desc2)))
        in if s = 0
           then (if offset (the (locator desc1)) < offset (the (locator desc2)) then - 1
                 else if offset (the (locator desc2)) < offset (the (locator desc1)) then 1
                 else 0)
           else s)"

text \<open>
  The first loop of \<^verbatim>\<open>XLALLoadSFTs\<close> from the second descriptor on: it counts the changes
  of epoch, records in \<open>isft\<close> of every locator the index of its SFT, and finds the least
  and the greatest bin of the catalog.  The state is the current epoch, \<open>nSFTs\<close>,
  \<open>minbin\<close> and \<open>maxbin\<close>.
\<close>

fun count_SFTs ::
  "env \<Rightarrow> REAL8 \<Rightarrow> SFTDescriptor list \<Rightarrow> LIGOTimeGPS \<times> UINT4 \<times> UINT4 \<times> UINT4
     \<Rightarrow> SFTDescriptor list \<times> UINT4 \<times> UINT4 \<times> UINT4" where
  "count_SFTs E dF [] (ep, nSFTs, minbin, maxbin) = ([], nSFTs, minbin, maxbin)"
| "count_SFTs E dF (d # ds) (ep, nSFTs, minbin, maxbin) =
     (let firstbin = (word_of_int (fp_lround E (fp_div E (f0 (header d)) dF)) :: UINT4);
          lastbin = firstbin + numBins d - 1;
          minbin = (if firstbin < minbin then firstbin else minbin);
          maxbin = (if maxbin < lastbin then lastbin else maxbin);
          (ep, nSFTs) = (if \<not> GPSEQUAL ep (epoch (header d)) then (epoch (header d), nSFTs + 1)
                         else (ep, nSFTs));
          d' = d\<lparr> locator := map_option (\<lambda>l. l\<lparr> isft := nSFTs - 1 \<rparr>) (locator d) \<rparr>;
          (ds', res) = count_SFTs E dF ds (ep, nSFTs, minbin, maxbin)
      in (d' # ds', res))"

text \<open>
  The state of the main loop: the name of the open file and the file, the buffer
  \<open>thisSFT\<close>, the segments and the vector to be returned.
\<close>

record load_state =
  ld_fname :: "cchar list"
  ld_fp :: "FILE option"
  ld_thisSFT :: SFTbuf
  ld_segments :: "SFTReadSegment list"
  ld_sftVector :: "SFTbuf list"

text \<open>
  What the loop does with the bins of one descriptor once they are read (or found to be
  none): the checks for gaps and overlaps and the copy into the vector.
\<close>

definition add_segment ::
  "REAL8 \<Rightarrow> UINT4 \<Rightarrow> SFTDescriptor \<Rightarrow> UINT4 \<Rightarrow> UINT4 \<Rightarrow> load_state \<Rightarrow> xlal_errno + load_state" where
  "add_segment dF firstbin d firstBinRead lastBinRead st =
     (let i = unat (isft (the (locator d)));
          seg = ld_segments st ! i;
          thisSFT = ld_thisSFT st
      in if lastBinRead \<noteq> 0
         then
           if seg_last seg = 0 \<and> firstBinRead \<noteq> firstbin then Inl XLAL_EIO
           else if seg_last seg \<noteq> 0 \<and> firstBinRead \<noteq> seg_last seg + 1 then Inl XLAL_EIO
           else
             let seg1 = (if seg_last seg = 0
                         then seg\<lparr> seg_first := firstBinRead, seg_epoch := b_epoch thisSFT \<rparr>
                         else seg)
             in if \<not> fp_eq dF (b_deltaF thisSFT) then Inl XLAL_EIO
                else if \<not> GPSEQUAL (seg_epoch seg1) (b_epoch thisSFT) then Inl XLAL_EIO
                else
                  let seg2 = seg1\<lparr> seg_last := lastBinRead, seg_lastfrom := locator d \<rparr>;
                      out = ld_sftVector st ! i;
                      out' = out\<lparr> b_name := name (header d),
                                   b_data := array_write (b_data out) (unat (firstBinRead - firstbin))
                                               (take (unat (lastBinRead - firstBinRead + 1))
                                                  (b_data thisSFT)) \<rparr>
                  in Inr (st\<lparr> ld_segments := (ld_segments st)[i := seg2],
                              ld_sftVector := (ld_sftVector st)[i := out'] \<rparr>)
         else if firstBinRead = 0
         then
           if GPSZERO (seg_epoch seg)
           then Inr (st\<lparr> ld_segments := (ld_segments st)[i := seg\<lparr> seg_epoch := b_epoch thisSFT \<rparr>] \<rparr>)
           else if \<not> GPSEQUAL (seg_epoch seg) (b_epoch thisSFT) then Inl XLAL_EIO
           else Inr st
         else Inl XLAL_EIO)"

text \<open>
  The main loop over the descriptors sorted by locator.  A descriptor that holds its
  samples is copied from memory, any other is read from its file, which is opened only
  when it is not the file already open.
\<close>

fun load_loop ::
  "env \<Rightarrow> filesys \<Rightarrow> REAL8 \<Rightarrow> UINT4 \<Rightarrow> UINT4 \<Rightarrow> SFTDescriptor list \<Rightarrow> load_state
     \<Rightarrow> xlal_errno + load_state" where
  "load_loop E fs dF firstbin lastbin [] st = Inr st"
| "load_loop E fs dF firstbin lastbin (d # ds) st =
     (case data (header d) of
        Some samples \<Rightarrow>
          let firstSFTbin = (word_of_int (fp_lround E (fp_div E (f0 (header d)) dF)) :: UINT4);
              lastSFTbin = firstSFTbin + numBins d - 1;
              firstBin2read = (if firstbin < firstSFTbin then firstSFTbin else firstbin);
              lastBin2read = (if lastSFTbin < lastbin then lastSFTbin else lastbin)
          in if firstBin2read \<le> lastBin2read
             then
               let offsetBins = firstBin2read - firstSFTbin;
                   numBins2read = lastBin2read - firstBin2read + 1;
                   thisSFT = (ld_thisSFT st)
                     \<lparr> b_name := name (header d), b_epoch := epoch (header d),
                       b_deltaF := deltaF (header d),
                       b_data := array_write (b_data (ld_thisSFT st)) 0
                                   (map Some (take (unat numBins2read) (drop (unat offsetBins) samples))),
                       b_f0 := fp_mul E (fp_mul E REAL8_1 (fp_of_int E (uint firstBin2read)))
                                 (deltaF (header d)) \<rparr>
               in (case add_segment dF firstbin d firstBin2read lastBin2read
                           (st\<lparr> ld_thisSFT := thisSFT \<rparr>) of
                     Inl e \<Rightarrow> Inl e
                   | Inr st' \<Rightarrow> load_loop E fs dF firstbin lastbin ds st')
             else
               (case add_segment dF firstbin d 0 0 st of
                  Inl e \<Rightarrow> Inl e
                | Inr st' \<Rightarrow> load_loop E fs dF firstbin lastbin ds st')
      | None \<Rightarrow>
          (case (if ld_fname st \<noteq> fname (the (locator d))
                 then fopen fs (fname (the (locator d)))
                 else ld_fp st) of
             None \<Rightarrow> Inl XLAL_EIO
           | Some fp \<Rightarrow>
               if offset (the (locator d)) < 0 then Inl XLAL_EIO
               else
                 let fp0 = (if offset (the (locator d)) \<noteq> 0
                            then fseek_set (nat (offset (the (locator d)))) fp else fp);
                     (lastBinRead, firstBinRead, thisSFT, fp') =
                        read_sft_bins_from_fp E (ld_thisSFT st) firstbin lastbin fp0
                 in (case add_segment dF firstbin d firstBinRead lastBinRead
                             (st\<lparr> ld_fname := fname (the (locator d)), ld_fp := Some fp',
                                   ld_thisSFT := thisSFT \<rparr>) of
                       Inl e \<Rightarrow> Inl e
                     | Inr st' \<Rightarrow> load_loop E fs dF firstbin lastbin ds st')))"

text \<open>The last loop: every SFT must have been read up to the last bin.\<close>

definition complete_SFTs ::
  "env \<Rightarrow> REAL8 \<Rightarrow> UINT4 \<Rightarrow> UINT4 \<Rightarrow> load_state \<Rightarrow> xlal_errno + SFTbuf list" where
  "complete_SFTs E dF firstbin lastbin st =
     (if list_all (\<lambda>seg. seg_last seg = lastbin) (ld_segments st)
      then Inr (map (\<lambda>(seg, out).
                  out\<lparr> b_f0 := fp_mul E (fp_mul E REAL8_1 (fp_of_int E (uint firstbin))) dF,
                       b_epoch := seg_epoch seg, b_deltaF := dF \<rparr>)
                  (zip (ld_segments st) (ld_sftVector st)))
      else Inl XLAL_EIO)"

text \<open>
  \<^verbatim>\<open>XLALLoadSFTs\<close>.  The catalog is \<open>None\<close> for a \<^verbatim>\<open>NULL\<close> pointer; it has at least one
  descriptor and every descriptor has a locator (the function reads both without a
  check).  Memory allocation succeeds.
\<close>

definition XLALLoadSFTs ::
  "env \<Rightarrow> filesys \<Rightarrow> SFTDescriptor list option \<Rightarrow> REAL8 \<Rightarrow> REAL8 \<Rightarrow> xlal_errno + SFTbuf list" where
  "XLALLoadSFTs E fs catalog fMin fMax =
     (case catalog of
        None \<Rightarrow> Inl XLAL_EINVAL
      | Some cat \<Rightarrow>
          let d0 = hd cat;
              dF = deltaF (header d0);
              firstbin0 = (word_of_int (fp_lround E (fp_div E (f0 (header d0)) dF)) :: UINT4);
              lastbin0 = firstbin0 + numBins d0 - 1;
              d0' = d0\<lparr> locator := map_option (\<lambda>l. l\<lparr> isft := 0 \<rparr>) (locator d0) \<rparr>;
              (ds', nSFTs, minbin, maxbin) =
                 count_SFTs E dF (tl cat) (epoch (header d0), 1, firstbin0, lastbin0);
              firstbin = (if fp_lt fMin REAL8_0 then minbin
                          else XLALRoundFrequencyDownToSFTBin E fMin dF);
              lastbin = (if fp_lt fMax REAL8_0 then maxbin
                         else XLALRoundFrequencyUpToSFTBin E fMax dF - 1)
          in if \<not> fp_lt fMax REAL8_0 \<and> lastbin = 0 \<and> \<not> fp_eq fMax REAL8_0 then Inl XLAL_EINVAL
             else
               let st0 = \<lparr> ld_fname = [], ld_fp = None,
                           ld_thisSFT = XLALCreateSFT (lastbin + 1 - firstbin),
                           ld_segments = replicate (unat nSFTs)
                              \<lparr> seg_first = 0, seg_last = 0,
                                seg_epoch = \<lparr> gpsSeconds = 0, gpsNanoSeconds = 0 \<rparr>,
                                seg_lastfrom = None \<rparr>,
                           ld_sftVector = replicate (unat nSFTs) (XLALCreateSFT (lastbin + 1 - firstbin)) \<rparr>
               in (case load_loop E fs dF firstbin lastbin (qsort compareSFTloc (d0' # ds')) st0 of
                     Inl e \<Rightarrow> Inl e
                   | Inr st \<Rightarrow> complete_SFTs E dF firstbin lastbin st))"

section \<open>A concrete machine\<close>

text \<open>
  For running the model on concrete inputs: binary64 arithmetic with rounding to nearest,
  ties to even, computed on integers (a finite pattern is \<open>m * 2 ^ e\<close>), and
  \<^verbatim>\<open>lround\<close> (halves away from zero).  \<^verbatim>\<open>TSFTfromDFreq\<close> is taken as the reciprocal, the
  detector table as a few of the two-character codes.  No theorem about the module
  depends on these definitions, only the concrete runs do.
\<close>

text \<open>The number of bits of a positive integer.\<close>

function ibits :: "int \<Rightarrow> int" where
  "ibits a = (if a \<le> 0 then 0 else 1 + ibits (a div 2))"
  by pat_completeness auto
termination
  by (relation "measure nat") auto

declare ibits.simps [simp del]

definition r8_sign :: "REAL8 \<Rightarrow> bool" where
  "r8_sign x = (2 ^ 63 \<le> uint x)"

definition r8_exp :: "REAL8 \<Rightarrow> int" where
  "r8_exp x = (uint x div 2 ^ 52) mod 2048"

definition r8_frac :: "REAL8 \<Rightarrow> int" where
  "r8_frac x = uint x mod 2 ^ 52"

definition r8_is_inf :: "REAL8 \<Rightarrow> bool" where
  "r8_is_inf x = (fp_mag x = 0x7FF0000000000000)"

definition r8_NaN :: REAL8 where
  "r8_NaN = 0x7FF8000000000000"

definition r8_inf :: "bool \<Rightarrow> REAL8" where
  "r8_inf s = (if s then 0xFFF0000000000000 else 0x7FF0000000000000)"

text \<open>A finite pattern as \<open>(m, e)\<close> with value \<open>m * 2 ^ e\<close>.\<close>

definition r8_val :: "REAL8 \<Rightarrow> int \<times> int" where
  "r8_val x =
     (let m = (if r8_exp x = 0 then r8_frac x else r8_frac x + 2 ^ 52);
          e = (if r8_exp x = 0 then - 1074 else r8_exp x - 1075)
      in (if r8_sign x then - m else m, e))"

definition r8_pack :: "bool \<Rightarrow> int \<Rightarrow> int \<Rightarrow> REAL8" where
  "r8_pack s q x =
     (let (q, x) = (if q = 2 ^ 53 then (2 ^ 52, x + 1) else (q, x));
          sb = (if s then 2 ^ 63 else 0)
      in if q < 2 ^ 52 then word_of_int (sb + q)
         else if 2047 \<le> x + 1075 then r8_inf s
         else word_of_int (sb + (x + 1075) * 2 ^ 52 + (q - 2 ^ 52)))"

definition r8_round :: "int \<Rightarrow> int \<Rightarrow> REAL8" where
  "r8_round m e =
     (if m = 0 then 0
      else
        let a = \<bar>m\<bar>;
            sh = max (ibits a - 53) (- 1074 - e)
        in if sh \<le> 0 then r8_pack (m < 0) (a * 2 ^ nat (- sh)) (e + sh)
           else
             let q = a div 2 ^ nat sh;
                 r = a mod 2 ^ nat sh;
                 half = 2 ^ nat (sh - 1);
                 q' = (if half < r \<or> (r = half \<and> odd q) then q + 1 else q)
             in r8_pack (m < 0) q' (e + sh))"

definition r8_div :: "REAL8 \<Rightarrow> REAL8 \<Rightarrow> REAL8" where
  "r8_div x y =
     (if fp_is_nan x \<or> fp_is_nan y then r8_NaN
      else if r8_is_inf x then (if r8_is_inf y then r8_NaN else r8_inf (r8_sign x \<noteq> r8_sign y))
      else if r8_is_inf y then 0
      else
        let (mx, ex) = r8_val x; (my, ey) = r8_val y
        in if my = 0 then (if mx = 0 then r8_NaN else r8_inf (r8_sign x \<noteq> r8_sign y))
           else
             let k = nat (64 + ibits \<bar>my\<bar>);
                 q = (\<bar>mx\<bar> * 2 ^ k) div \<bar>my\<bar>;
                 r = (\<bar>mx\<bar> * 2 ^ k) mod \<bar>my\<bar>;
                 m = 2 * q + (if r = 0 then 0 else 1)
             in r8_round (if r8_sign x \<noteq> r8_sign y then - m else m) (ex - ey - int k - 1))"

definition r8_mul :: "REAL8 \<Rightarrow> REAL8 \<Rightarrow> REAL8" where
  "r8_mul x y =
     (if fp_is_nan x \<or> fp_is_nan y then r8_NaN
      else if r8_is_inf x \<or> r8_is_inf y
      then (if fp_mag x = 0 \<or> fp_mag y = 0 then r8_NaN else r8_inf (r8_sign x \<noteq> r8_sign y))
      else let (mx, ex) = r8_val x; (my, ey) = r8_val y in r8_round (mx * my) (ex + ey))"

definition r8_add :: "REAL8 \<Rightarrow> REAL8 \<Rightarrow> REAL8" where
  "r8_add x y =
     (if fp_is_nan x \<or> fp_is_nan y then r8_NaN
      else if r8_is_inf x then (if r8_is_inf y \<and> r8_sign x \<noteq> r8_sign y then r8_NaN else x)
      else if r8_is_inf y then y
      else
        let (mx, ex) = r8_val x; (my, ey) = r8_val y; e = min ex ey
        in r8_round (mx * 2 ^ nat (ex - e) + my * 2 ^ nat (ey - e)) e)"

definition r8_of_int :: "int \<Rightarrow> REAL8" where
  "r8_of_int i = r8_round i 0"

definition r8_lround :: "REAL8 \<Rightarrow> int" where
  "r8_lround x =
     (if fp_is_nan x \<or> r8_is_inf x then 0
      else
        let (m, e) = r8_val x
        in if 0 \<le> e then m * 2 ^ nat e
           else (if m < 0 then - 1 else 1) * ((\<bar>m\<bar> + 2 ^ nat (- e - 1)) div 2 ^ nat (- e)))"

definition r8_floor :: "REAL8 \<Rightarrow> int" where
  "r8_floor x =
     (if fp_is_nan x \<or> r8_is_inf x then 0
      else let (m, e) = r8_val x in if 0 \<le> e then m * 2 ^ nat e else m div 2 ^ nat (- e))"

definition r8_ceil :: "REAL8 \<Rightarrow> int" where
  "r8_ceil x =
     (if fp_is_nan x \<or> r8_is_inf x then 0
      else let (m, e) = r8_val x in if 0 \<le> e then m * 2 ^ nat e else - ((- m) div 2 ^ nat (- e)))"

definition ieee_env :: env where
  "ieee_env =
     \<lparr> fp_add = r8_add, fp_mul = r8_mul, fp_div = r8_div, fp_of_int = r8_of_int,
       fp_lround = r8_lround, fp_floor = r8_floor, fp_ceil = r8_ceil, TSFTfromDFreq = r8_div REAL8_1,
       knownDetectors = [''H1'', ''H2'', ''L1'', ''V1'', ''G1'', ''K1''] \<rparr>"

section \<open>Example inputs\<close>

text \<open>
  An SFT of detector \<^verbatim>\<open>H1\<close> at GPS 1000000000 with \<^verbatim>\<open>f0 = 10\<close>, \<^verbatim>\<open>deltaF = 1/1800\<close> and two
  samples \<^verbatim>\<open>(1, 0)\<close>, and the file written for it with the comment \<^verbatim>\<open>hi\<close>.
\<close>

definition example_sft :: SFTtype where
  "example_sft =
     \<lparr> name = ''H1'',
       epoch = \<lparr> gpsSeconds = 1000000000, gpsNanoSeconds = 0 \<rparr>,
       f0 = 0x4024000000000000,
       deltaF = 0x3F423456789ABCDF,
       data = Some [(0x3F800000, 0), (0x3F800000, 0)] \<rparr>"

definition example_bytes :: "cchar list" where
  "example_bytes = projr (XLALWriteSFT2fp ieee_env (Some example_sft) (Some []) (Some ''hi''))"

text \<open>A file system with the example file, and descriptors for its block.\<close>

definition example_fs :: filesys where
  "example_fs nm = (if nm = ''H-1_H1_1800SFT-1000000000-1800.sft'' then Some example_bytes else None)"


text \<open>An environment without directories and list files.\<close>

definition example_dirsys :: dirsys where
  "example_dirsys = \<lparr> readdir = (\<lambda>d. None), XLALParseDataFile = (\<lambda>f. None), amatch = (\<lambda>s p. False) \<rparr>"


definition gps_at :: "INT4 \<Rightarrow> LIGOTimeGPS" where
  "gps_at s = \<lparr> gpsSeconds = s, gpsNanoSeconds = 0 \<rparr>"

text \<open>Constraints that select the example SFT, and the file name as pattern.\<close>

definition example_constraints :: SFTConstraints where
  "example_constraints =
     \<lparr> detector = Some ''H1'', minStartTime = None, maxStartTime = None,
       timestamps = Some [gps_at 1000000000] \<rparr>"

definition example_pattern :: "cchar list" where
  "example_pattern = ''H-1_H1_1800SFT-1000000000-1800.sft''"

definition example_catalog :: "SFTDescriptor list" where
  "example_catalog =
     projr (XLALSFTdataFind ieee_env example_dirsys example_fs (Some example_pattern)
              (Some example_constraints))"

text \<open>
  An SFT of the same detector and epoch that begins at \<^verbatim>\<open>f0 = 0\<close> and has the single
  sample \<^verbatim>\<open>(1, 0)\<close>, the file written for it without a comment, and the catalog found
  for this file without constraints.
\<close>

definition example_dc_sft :: SFTtype where
  "example_dc_sft =
     \<lparr> name = ''H1'',
       epoch = \<lparr> gpsSeconds = 1000000000, gpsNanoSeconds = 0 \<rparr>,
       f0 = 0,
       deltaF = 0x3F423456789ABCDF,
       data = Some [(0x3F800000, 0)] \<rparr>"

definition example_dc_bytes :: "cchar list" where
  "example_dc_bytes = projr (XLALWriteSFT2fp ieee_env (Some example_dc_sft) (Some []) None)"

definition example_dc_fs :: filesys where
  "example_dc_fs nm = (if nm = example_pattern then Some example_dc_bytes else None)"

definition example_dc_catalog :: "SFTDescriptor list" where
  "example_dc_catalog =
     projr (XLALSFTdataFind ieee_env example_dirsys example_dc_fs (Some example_pattern) None)"

section \<open>Properties\<close>

subsection \<open>Memory images, word arithmetic\<close>

lemma length_le_bytes [simp]: "length (le_bytes n w) = n"
  by (simp add: le_bytes_def)

lemma of_char_char_of_word: "(of_char (char_of (unat w)) :: 'a::len word) = take_bit 8 w"
  by (metis (mono_tags, lifting) char_of_eq_iff of_nat_of_char
    take_bit_eq_mod unat_mod unsigned_take_bit_eq
    word_arith_nat_mod)

lemma take_bit_split8:
  "take_bit 8 w + 256 * take_bit (8 * n) (drop_bit 8 w) = take_bit (8 * Suc n) (w :: 'a::len word)"
proof -
  let ?x = "take_bit (8 * Suc n) w"
  have "push_bit 8 (drop_bit 8 ?x) + take_bit 8 ?x = ?x" by (rule bits_ident)
  moreover have "take_bit 8 ?x = take_bit 8 w" by (simp add: min_def)
  moreover have "drop_bit 8 ?x = take_bit (8 * n) (drop_bit 8 w)" by (simp add: drop_bit_take_bit)
  ultimately show ?thesis by (simp add: push_bit_eq_mult add.commute mult.commute)
qed

lemma horner_le_bytes:
  "horner_sum of_char 256 (map (\<lambda>i. char_of (unat (drop_bit (8 * i) w))) [0..<n])
     = take_bit (8 * n) (w :: 'a::len word)"
proof (induction n arbitrary: w)
  case 0 show ?case by simp
next
  case (Suc n)
  have "[0..<Suc n] = 0 # map Suc [0..<n]"
    by (simp add: upt_conv_Cons map_Suc_upt del: upt_Suc)
  then have "horner_sum of_char 256 (map (\<lambda>i. char_of (unat (drop_bit (8 * i) w))) [0..<Suc n])
      = of_char (char_of (unat w))
        + 256 * horner_sum of_char 256 (map (\<lambda>i. char_of (unat (drop_bit (8 * i) (drop_bit 8 w)))) [0..<n])"
    by (simp add: comp_def drop_bit_drop_bit add.commute del: upt_Suc)
  also have "\<dots> = take_bit 8 w + 256 * take_bit (8 * n) (drop_bit 8 w)"
    by (simp only: Suc.IH of_char_char_of_word)
  also have "\<dots> = take_bit (8 * Suc n) w"
    by (rule take_bit_split8)
  finally show ?case .
qed

lemma le_word_le_bytes: "LENGTH('a) \<le> 8 * n \<Longrightarrow> le_word (le_bytes n w) = (w :: 'a::len word)"
  by (simp add: le_word_def le_bytes_def horner_le_bytes take_bit_word_eq_self)

lemma le_bytes_0: "le_bytes n (0 :: 'a::len word) = replicate n NUL"
  by (simp add: le_bytes_def NUL_def map_replicate_const char_of_def)

lemma calc_crc64_foldl: "calc_crc64 (Some buf) len crc = foldl crc_byte crc (take (unat len) buf)"
  by (simp add: calc_crc64_def)

lemma length_rawheader_image: "length (rh_detector h) = 2 \<Longrightarrow> length (rh_padding h) = 2 \<Longrightarrow> length (rawheader_image h) = 48"
  by (simp add: rawheader_image_def)

lemma rawheader_of_image_image:
  assumes "length (rh_detector h) = 2" "length (rh_padding h) = 2"
  shows "rawheader_of_image False (rawheader_image h) = h"
  using assms by (simp add: rawheader_of_image_def rawheader_image_def field_def le_word_le_bytes)

lemma zero_crc_field_image:
  assumes "length (rh_detector h) = 2" "length (rh_padding h) = 2"
  shows "zero_crc_field (rawheader_image h) = rawheader_image (h\<lparr>rh_crc64 := 0\<rparr>)"
  using assms by (simp add: zero_crc_field_def rawheader_image_def le_bytes_0)

lemma c_str_append_NUL: "NUL \<notin> set s \<Longrightarrow> c_str (s @ NUL # rest) = s"
  by (auto simp: c_str_def takeWhile_tail)

lemma writer_success:
  assumes "XLALWriteSFT2fp E (Some sft) (Some out) SFTcomment = Inr out'"
  shows "\<exists>xs. data sft = Some xs \<and> (of_nat (length xs) :: UINT4) \<noteq> 0 \<and>
           \<not> fp_le (deltaF sft) REAL8_0 \<and> \<not> fp_lt (f0 sft) REAL8_0 \<and>
           XLALIsValidCWDetector E (name sft) \<and>
           out' = out @ rawheader_image ((writer_rawheader E sft xs SFTcomment)
                     \<lparr>rh_crc64 := calc_crc64 (Some (data_image xs)) (of_nat (length xs * 8))
                        (calc_crc64 (Some (replicate 7 NUL)) ((8 - SFTcomment_len (name sft) SFTcomment mod 8) mod 8)
                          (calc_crc64 (Some (SFTcomment_buffer (name sft) SFTcomment)) (SFTcomment_len (name sft) SFTcomment)
                            (calc_crc64 (Some (rawheader_image (writer_rawheader E sft xs SFTcomment))) 48 (NOT 0))))\<rparr>)
                   @ take (unat (SFTcomment_len (name sft) SFTcomment)) (SFTcomment_buffer (name sft) SFTcomment)
                   @ take (unat ((8 - SFTcomment_len (name sft) SFTcomment mod 8) mod 8)) (replicate 7 NUL)
                   @ data_image xs"
  using assms
  by (auto simp: XLALWriteSFT2fp_def Let_def split: option.splits if_splits)

lemma fread_at:
  "length pre = p \<Longrightarrow> length mid = n \<Longrightarrow>
   fread n \<lparr>fbytes = pre @ mid @ post, fpos = p\<rparr> = (mid, \<lparr>fbytes = pre @ mid @ post, fpos = p + n\<rparr>)"
  by (simp add: fread_def)

lemma unat_of_nat32: "n < 2 ^ 32 \<Longrightarrow> unat (of_nat n :: UINT4) = n"
  by (simp add: unat_of_nat)

lemma SFTcomment_len_of_nat:
  "SFTcomment_len nm c = of_nat (length (SFTcomment_buffer nm c))"
  by (simp add: SFTcomment_len_def SFTcomment_buffer_def SFTcomment_string_def split: option.split)

lemma unat_SFTcomment_len:
  "length (SFTcomment_buffer nm c) < 2 ^ 32 \<Longrightarrow> unat (SFTcomment_len nm c) = length (SFTcomment_buffer nm c)"
  by (simp add: SFTcomment_len_of_nat unat_of_nat32)

lemma unat_pad_len: "unat ((8 - (cl :: UINT4) mod 8) mod 8) = (8 - unat cl mod 8) mod 8"
proof -
  have m: "unat (cl mod 8) = unat cl mod 8" by (simp add: unat_mod)
  have "cl mod 8 \<le> 8" by (simp add: word_le_nat_alt m)
  then have "unat (8 - cl mod 8) = 8 - unat cl mod 8"
    by (simp add: unat_sub m)
  then show ?thesis by (simp add: unat_mod)
qed

lemma sint_small:
  assumes "unat (w :: UINT4) < 2 ^ 31" shows "sint w = int (unat w)"
proof -
  have "int (unat w) < int (2 ^ 31)" using assms by (simp only: of_nat_less_iff)
  then have u: "uint w < 2 ^ 31" by (simp only: of_nat_power of_nat_numeral of_nat_unat)
  have z: "- (2 ^ 31) \<le> uint w"
    by (rule order_trans [OF _ uint_ge_0]) simp
  have "signed_take_bit 31 (uint w) = uint w" using u z
    by (simp only: signed_take_bit_int_eq_self_iff)
  then have "sint w = uint w" by (simp only: sint_uint) simp
  then show ?thesis by (simp only: of_nat_unat)
qed

lemma pad_to_8: "(k + (8 - k mod 8) mod 8) mod 8 = (0::nat)"
proof -
  define r where "r = k mod 8"
  define q where "q = k div 8"
  have k: "k = 8 * q + r" and r: "r < 8" and km: "k mod 8 = r"
    by (simp_all add: r_def q_def)
  show ?thesis
  proof (cases "r = 0")
    case True
    then show ?thesis using km by simp
  next
    case False
    then have "(8 - r) mod 8 = 8 - r" using r by simp
    then have "k + (8 - k mod 8) mod 8 = 8 * (q + 1)" using k r km by simp
    then show ?thesis by simp
  qed
qed

lemma comment_length_facts:
  fixes cl :: UINT4
  assumes "unat cl + 7 < 2 ^ 31"
  defines "pl \<equiv> (8 - cl mod 8) mod 8"
  shows "unat (cl + pl) = unat cl + unat pl"
    and "sint (cl + pl) = int (unat cl + unat pl)"
    and "(unat cl + unat pl) mod 8 = 0"
    and "unat pl < 8"
proof -
  have pl: "unat pl = (8 - unat cl mod 8) mod 8" by (simp add: pl_def unat_pad_len)
  then show lt: "unat pl < 8" by simp
  show s: "unat (cl + pl) = unat cl + unat pl"
    using assms(1) lt by (subst unat_add_lem [symmetric]) simp
  show "sint (cl + pl) = int (unat cl + unat pl)"
    using assms(1) lt s by (subst sint_small) simp_all
  show "(unat cl + unat pl) mod 8 = 0"
    by (simp only: pl pad_to_8)
qed

subsection \<open>Writer and reader\<close>

lemma crc_data_blocks_ok:
  "fpos fp + unat L \<le> length (fbytes fp) \<Longrightarrow>
   crc_data_blocks L crc fp = Some (foldl crc_byte crc (take (unat L) (drop (fpos fp) (fbytes fp))))"
proof (induction L crc fp rule: crc_data_blocks.induct)
  case (1 data_len computed_crc fp)
  show ?case
  proof (cases "0 < data_len")
    case False
    then have "data_len = 0" by (simp add: word_gt_0)
    then show ?thesis by (simp add: crc_data_blocks.simps [of 0])
  next
    case True
    define toread where "toread = (if BLOCKSIZE < data_len then BLOCKSIZE else data_len)"
    define block where "block = take (unat toread) (drop (fpos fp) (fbytes fp))"
    define fp' where "fp' = fp\<lparr>fpos := fpos fp + length block\<rparr>"
    have le: "toread \<le> data_len" by (auto simp: toread_def)
    then have ule: "unat toread \<le> unat data_len" by (simp add: word_le_nat_alt)
    have lb: "length block = unat toread"
      using "1.prems" ule by (simp add: block_def)
    have fpos': "fpos fp' = fpos fp + unat toread" and fbytes': "fbytes fp' = fbytes fp"
      by (simp_all add: fp'_def lb)
    have fr: "fread (unat toread) fp = (block, fp')"
      by (simp add: fread_def block_def fp'_def Let_def)
    have sub: "unat (data_len - toread) = unat data_len - unat toread"
      using le by (rule unat_sub)
    have pre: "fpos fp' + unat (data_len - toread) \<le> length (fbytes fp')"
      using "1.prems" ule by (simp add: fpos' fbytes' sub)
    have IH: "crc_data_blocks (data_len - toread) (calc_crc64 (Some block) toread computed_crc) fp'
        = Some (foldl crc_byte (calc_crc64 (Some block) toread computed_crc)
                 (take (unat (data_len - toread)) (drop (fpos fp') (fbytes fp'))))"
      using "1.IH" [OF True toread_def fr [symmetric] refl _ pre] lb by simp
    have cb: "calc_crc64 (Some block) toread computed_crc = foldl crc_byte computed_crc block"
      by (simp add: calc_crc64_foldl lb)
    have split: "take (unat data_len) (drop (fpos fp) (fbytes fp))
        = block @ take (unat (data_len - toread)) (drop (fpos fp') (fbytes fp'))"
    proof -
      have "unat data_len = unat toread + (unat data_len - unat toread)" using ule by simp
      then have "take (unat data_len) (drop (fpos fp) (fbytes fp))
         = take (unat toread) (drop (fpos fp) (fbytes fp))
           @ take (unat data_len - unat toread) (drop (unat toread) (drop (fpos fp) (fbytes fp)))"
        by (metis take_add)
      then show ?thesis unfolding block_def by (simp add: fpos' fbytes' sub add.commute)
    qed
    have "crc_data_blocks data_len computed_crc fp
        = crc_data_blocks (data_len - toread) (calc_crc64 (Some block) toread computed_crc) fp'"
      using True fr lb by (subst crc_data_blocks.simps) (simp add: toread_def [symmetric] Let_def)
    then show ?thesis using IH by (simp add: cb split)
  qed
qed

lemma fp_eq_REAL8_2: "fp_eq REAL8_2 REAL8_2"
  by (simp add: fp_eq_def fp_is_nan_def fp_mag_def REAL8_2_def)

lemma c_str_detector:
  "NUL \<notin> set nm \<Longrightarrow> c_str [c_index nm 0, c_index nm 1] = take 2 nm"
  by (cases nm; cases "tl nm") (auto simp: c_str_def c_index_def)

lemma valid_take2: "XLALIsValidCWDetector E (take 2 nm) = XLALIsValidCWDetector E nm"
  by (simp add: XLALIsValidCWDetector_def)

lemma SFTcomment_string_NUL:
  "NUL \<notin> set nm \<Longrightarrow> (\<forall>c. SFTcomment = Some c \<longrightarrow> NUL \<notin> set c) \<Longrightarrow>
   NUL \<notin> set (SFTcomment_string nm SFTcomment)"
  by (auto simp: SFTcomment_string_def NUL_def split: option.splits)

lemma int_mod8: "(a::nat) mod 8 = 0 \<Longrightarrow> int a mod 8 = 0"
  by presburger

lemma read_v2_header_written:
  assumes W_def: "W = writer_rawheader E sft xs SFTcomment"
    and str_def: "str = SFTcomment_string (name sft) SFTcomment"
    and cl_def: "cl = SFTcomment_len (name sft) SFTcomment"
    and pl_def: "pl = (8 - cl mod 8) mod 8"
    and crc0_def: "crc0 = calc_crc64 (Some (rawheader_image W)) 48 (NOT 0)"
    and crc1_def: "crc1 = calc_crc64 (Some (str @ [NUL])) cl crc0"
    and crc2_def: "crc2 = calc_crc64 (Some (replicate 7 NUL)) pl crc1"
    and nul: "NUL \<notin> set str"
    and nm: "NUL \<notin> set (name sft)"
    and len: "length str + 8 < 2 ^ 31"
    and n: "0 < length xs" "length xs < 2 ^ 31"
    and valid: "XLALIsValidCWDetector E (name sft)"
    and bytes: "bytes = out @ rawheader_image (W\<lparr>rh_crc64 := c3\<rparr>) @ (str @ [NUL]) @ replicate (unat pl) NUL @ rest"
  shows "read_v2_header_from_fp E \<lparr>fbytes = bytes, fpos = length out\<rparr> False =
           Some (\<lparr> name = take 2 (name sft), epoch = epoch sft,
                    f0 = fp_div E (fp_of_int E (sint (rh_first_frequency_index W))) (rh_tbase W),
                    deltaF = fp_div E REAL8_1 (rh_tbase W), data = None \<rparr>,
                 of_nat (length xs), crc2, c3, Some str,
                 \<lparr>fbytes = bytes, fpos = length out + 48 + (length str + 1 + unat pl)\<rparr>)"
proof -
  let ?W3 = "W\<lparr>rh_crc64 := c3\<rparr>"
  have Wl: "length (rh_detector ?W3) = 2" "length (rh_padding ?W3) = 2"
    by (simp_all add: W_def writer_rawheader_def Let_def)
  have W0: "?W3\<lparr>rh_crc64 := 0\<rparr> = W"
    by (simp add: W_def writer_rawheader_def Let_def)
  have img: "length (rawheader_image ?W3) = 48"
    using Wl by (rule length_rawheader_image)
  have fr1: "fread 48 \<lparr>fbytes = bytes, fpos = length out\<rparr>
      = (rawheader_image ?W3, \<lparr>fbytes = bytes, fpos = length out + 48\<rparr>)"
    unfolding bytes by (rule fread_at [OF refl img])
  have ucl: "unat cl = length str + 1"
    using len unat_SFTcomment_len [of "name sft" SFTcomment]
    by (simp add: cl_def str_def SFTcomment_buffer_def)
  have facts: "unat (cl + pl) = unat cl + unat pl" "sint (cl + pl) = int (unat cl + unat pl)"
      "(unat cl + unat pl) mod 8 = 0" "unat pl < 8"
    using comment_length_facts [of cl] len ucl by (simp_all add: pl_def)
  have clen: "rh_comment_length ?W3 = cl + pl"
    by (simp add: W_def writer_rawheader_def Let_def cl_def pl_def)
  let ?comm = "(str @ [NUL]) @ replicate (unat pl) NUL"
  have lcomm: "length ?comm = unat (cl + pl)" by (simp add: facts ucl)
  have fr2: "fread (unat (cl + pl)) \<lparr>fbytes = bytes, fpos = length out + 48\<rparr>
      = (?comm, \<lparr>fbytes = bytes, fpos = length out + 48 + unat (cl + pl)\<rparr>)"
  proof -
    have "bytes = (out @ rawheader_image ?W3) @ ?comm @ rest" by (simp add: bytes)
    moreover have "length (out @ rawheader_image ?W3) = length out + 48" by (simp add: img)
    ultimately show ?thesis using fread_at [OF _ lcomm] by metis
  qed
  have cstr: "c_str ?comm = str"
    using nul c_str_append_NUL [of str "replicate (unat pl) NUL"] by simp
  have lastc: "last ?comm = NUL" by (simp add: last_append)
  have tail: "\<not> (\<exists>c \<in> set (drop (length str) (butlast ?comm)). c \<noteq> NUL)"
    by (auto simp: butlast_append dest: in_set_butlastD split: if_splits)
  have cl': "(of_nat (length str) + 1 :: UINT4) = cl"
    by (simp add: cl_def SFTcomment_len_of_nat SFTcomment_buffer_def str_def)
  have crcA: "calc_crc64 (Some ?comm) cl crc = calc_crc64 (Some (str @ [NUL])) cl crc" for crc
    by (simp add: calc_crc64_foldl ucl)
  have ne0: "cl + pl \<noteq> 0"
    using facts(1) ucl by (metis add_is_0 unat_0 One_nat_def add_Suc_right nat.simps(3))
  have hdr: "rawheader_of_image False (rawheader_image ?W3) = ?W3"
    by (rule rawheader_of_image_image [OF Wl])
  have zc: "zero_crc_field (rawheader_image ?W3) = rawheader_image W"
    using zero_crc_field_image [OF Wl] W0 by simp
  have flds: "rh_version ?W3 = REAL8_2" "rh_nsamples ?W3 = of_nat (length xs)"
      "rh_detector ?W3 = [c_index (name sft) 0, c_index (name sft) 1]"
      "rh_gps_sec ?W3 = gpsSeconds (epoch sft)" "rh_gps_nsec ?W3 = gpsNanoSeconds (epoch sft)"
      "rh_crc64 ?W3 = c3" "rh_tbase ?W3 = rh_tbase W"
      "rh_first_frequency_index ?W3 = rh_first_frequency_index W"
    by (simp_all add: W_def writer_rawheader_def Let_def)
  have sn: "sint (of_nat (length xs) :: UINT4) = int (length xs)"
    using n by (simp add: sint_small unat_of_nat32)
  have ep: "\<lparr>gpsSeconds = gpsSeconds (epoch sft), gpsNanoSeconds = gpsNanoSeconds (epoch sft)\<rparr> = epoch sft"
    by simp
  have m8: "int (unat cl + unat pl) mod 8 = 0"
    using facts(3) by (rule int_mod8)
  have nn: "\<not> 1 + (int (length str) + uint pl) < 0"
    using uint_ge_0 [of pl] by linarith
  show ?thesis
    unfolding read_v2_header_from_fp_def
    apply (simp only: fr1 prod.case Let_def img hdr zc flds clen)
    apply (simp only: fr2 prod.case lcomm cstr lastc tail cl' crcA)
    apply (simp only: fp_eq_REAL8_2 sn facts(2) m8 c_str_detector [OF nm] valid_take2 valid ne0 ep
             pl_def [symmetric])
    apply (simp only: crc0_def [symmetric])
    apply (simp only: crc1_def [symmetric])
    apply (simp only: crc2_def [symmetric] facts(1) ucl)
    apply (use n nn in auto)
    done
qed

lemma read_SFTversion_written:
  assumes "length (rh_detector W) = 2" "length (rh_padding W) = 2" "rh_version W = REAL8_2"
  shows "read_SFTversion_from_fp \<lparr>fbytes = out @ rawheader_image W @ rest, fpos = length out\<rparr> = Some (2, False)"
proof -
  have "rawheader_image W = le_bytes 8 REAL8_2 @ drop 8 (rawheader_image W)"
    using assms by (simp add: rawheader_image_def)
  then have "fread 8 \<lparr>fbytes = out @ rawheader_image W @ rest, fpos = length out\<rparr>
     = (le_bytes 8 REAL8_2, \<lparr>fbytes = out @ rawheader_image W @ rest, fpos = length out + 8\<rparr>)"
    using fread_at [of out "length out" "le_bytes 8 REAL8_2" 8 "drop 8 (rawheader_image W) @ rest"]
    by (metis append.assoc length_le_bytes)
  then show ?thesis by (simp add: read_SFTversion_from_fp_def)
qed


lemma length_data_image: "length (data_image xs) = 8 * length xs"
  by (induction xs) (auto simp: data_image_def)

lemma writer_bytes:
  assumes w: "XLALWriteSFT2fp E (Some sft) (Some out) SFTcomment = Inr bytes"
    and d: "data sft = Some xs"
    and len: "length (SFTcomment_string (name sft) SFTcomment) + 8 < 2 ^ 31"
  defines "W \<equiv> writer_rawheader E sft xs SFTcomment"
  defines "str \<equiv> SFTcomment_string (name sft) SFTcomment"
  defines "cl \<equiv> SFTcomment_len (name sft) SFTcomment"
  defines "pl \<equiv> (8 - cl mod 8) mod 8"
  defines "crc2 \<equiv> calc_crc64 (Some (replicate 7 NUL)) pl
                    (calc_crc64 (Some (str @ [NUL])) cl
                      (calc_crc64 (Some (rawheader_image W)) 48 (NOT 0)))"
  defines "c3 \<equiv> calc_crc64 (Some (data_image xs)) (of_nat (length xs * 8)) crc2"
  shows "bytes = out @ rawheader_image (W\<lparr>rh_crc64 := c3\<rparr>) @ (str @ [NUL])
                   @ replicate (unat pl) NUL @ data_image xs"
    and "XLALIsValidCWDetector E (name sft)"
    and "(of_nat (length xs) :: UINT4) \<noteq> 0"
proof -
  from writer_success [OF w] d
  have v: "XLALIsValidCWDetector E (name sft)" and n0: "(of_nat (length xs) :: UINT4) \<noteq> 0"
    and b: "bytes = out @ rawheader_image (W\<lparr>rh_crc64 := c3\<rparr>)
              @ take (unat cl) (SFTcomment_buffer (name sft) SFTcomment)
              @ take (unat pl) (replicate 7 NUL) @ data_image xs"
    by (auto simp: W_def c3_def crc2_def cl_def pl_def str_def SFTcomment_buffer_def)
  show "XLALIsValidCWDetector E (name sft)" by (rule v)
  show "(of_nat (length xs) :: UINT4) \<noteq> 0" by (rule n0)
  have ucl: "unat cl = length str + 1"
    using len unat_SFTcomment_len [of "name sft" SFTcomment]
    by (simp add: cl_def str_def SFTcomment_buffer_def)
  have "unat pl < 8" by (simp add: pl_def unat_pad_len)
  then have mn: "min (unat pl) 7 = unat pl" by simp
  then have tp: "take (unat pl) (replicate 7 NUL) = replicate (unat pl) NUL"
    by simp
  show "bytes = out @ rawheader_image (W\<lparr>rh_crc64 := c3\<rparr>) @ (str @ [NUL])
                   @ replicate (unat pl) NUL @ data_image xs"
    using b mn by (simp add: ucl SFTcomment_buffer_def str_def)
qed


lemma NUL_SFTcomment_string:
  assumes "NUL \<notin> set nm" "NUL \<notin> set (case SFTcomment of None \<Rightarrow> [] | Some c \<Rightarrow> c)"
  shows "NUL \<notin> set (SFTcomment_string nm SFTcomment)"
  using assms by (auto simp: SFTcomment_string_def NUL_def split: option.splits)

lemma write_read_main:
  assumes w: "XLALWriteSFT2fp E (Some sft) (Some out) SFTcomment = Inr bytes"
    and d: "data sft = Some xs"
    and nm: "NUL \<notin> set (name sft)"
    and cm: "NUL \<notin> set (case SFTcomment of None \<Rightarrow> [] | Some c \<Rightarrow> c)"
    and len: "length (SFTcomment_string (name sft) SFTcomment) + 8 < 2 ^ 31"
    and n: "length xs < 2 ^ 31"
  shows "\<exists>hcrc ref pos.
      read_SFTversion_from_fp \<lparr>fbytes = bytes, fpos = length out\<rparr> = Some (2, False) \<and>
      read_v2_header_from_fp E \<lparr>fbytes = bytes, fpos = length out\<rparr> False =
        Some (\<lparr> name = take 2 (name sft), epoch = epoch sft,
                 f0 = fp_div E (fp_of_int E (sint (word_of_int (fp_lround E (fp_div E (f0 sft) (deltaF sft))) :: INT4)))
                               (TSFTfromDFreq E (deltaF sft)),
                 deltaF = fp_div E REAL8_1 (TSFTfromDFreq E (deltaF sft)),
                 data = None \<rparr>,
              of_nat (length xs), hcrc, ref, Some (SFTcomment_string (name sft) SFTcomment),
              \<lparr>fbytes = bytes, fpos = pos\<rparr>) \<and>
      drop pos bytes = data_image xs \<and>
      crc_data_blocks (of_nat (length xs) * 8) hcrc \<lparr>fbytes = bytes, fpos = pos\<rparr> = Some ref \<and>
      has_valid_v2_crc64 E (Some \<lparr>fbytes = bytes, fpos = length out\<rparr>) = 1"
proof -
  define W where "W = writer_rawheader E sft xs SFTcomment"
  define str where "str = SFTcomment_string (name sft) SFTcomment"
  define cl where "cl = SFTcomment_len (name sft) SFTcomment"
  define pl where "pl = (8 - cl mod 8) mod 8"
  define crc2 where "crc2 = calc_crc64 (Some (replicate 7 NUL)) pl
                    (calc_crc64 (Some (str @ [NUL])) cl
                      (calc_crc64 (Some (rawheader_image W)) 48 (NOT 0)))"
  define c3 where "c3 = calc_crc64 (Some (data_image xs)) (of_nat (length xs * 8)) crc2"
  define pos where "pos = length out + 48 + (length str + 1 + unat pl)"
  let ?fp = "\<lparr>fbytes = bytes, fpos = length out\<rparr>"
  let ?fp2 = "\<lparr>fbytes = bytes, fpos = pos\<rparr>"
  note wb = writer_bytes [OF w d len]
  have bytes: "bytes = out @ rawheader_image (W\<lparr>rh_crc64 := c3\<rparr>) @ (str @ [NUL])
                   @ replicate (unat pl) NUL @ data_image xs"
    using wb(1) by (simp only: W_def str_def cl_def pl_def crc2_def c3_def)
  have n0: "0 < length xs" using wb(3) by (cases xs) auto
  have nul: "NUL \<notin> set str" unfolding str_def by (rule NUL_SFTcomment_string [OF nm cm])
  have Wf: "length (rh_detector (W\<lparr>rh_crc64 := c3\<rparr>)) = 2" "length (rh_padding (W\<lparr>rh_crc64 := c3\<rparr>)) = 2"
      "rh_version (W\<lparr>rh_crc64 := c3\<rparr>) = REAL8_2"
      "rh_tbase W = TSFTfromDFreq E (deltaF sft)"
      "rh_first_frequency_index W = word_of_int (fp_lround E (fp_div E (f0 sft) (deltaF sft)))"
    by (simp_all add: W_def writer_rawheader_def Let_def)
  have ver: "read_SFTversion_from_fp ?fp = Some (2, False)"
    unfolding bytes by (rule read_SFTversion_written [OF Wf(1-3)])
  have hdr: "read_v2_header_from_fp E ?fp False =
        Some (\<lparr> name = take 2 (name sft), epoch = epoch sft,
                 f0 = fp_div E (fp_of_int E (sint (rh_first_frequency_index W))) (rh_tbase W),
                 deltaF = fp_div E REAL8_1 (rh_tbase W), data = None \<rparr>,
              of_nat (length xs), crc2, c3, Some str, ?fp2)"
    using read_v2_header_written [OF W_def str_def cl_def pl_def refl refl refl nul nm _ n0 n wb(2) bytes] len
    by (simp add: crc2_def pos_def str_def)
  have lb: "length bytes = pos + 8 * length xs"
    by (simp add: bytes pos_def length_rawheader_image [OF Wf(1,2)] length_data_image)
  have dr: "drop pos bytes = data_image xs"
  proof -
    have "bytes = (out @ rawheader_image (W\<lparr>rh_crc64 := c3\<rparr>) @ (str @ [NUL])
                   @ replicate (unat pl) NUL) @ data_image xs" by (simp add: bytes)
    moreover have "length (out @ rawheader_image (W\<lparr>rh_crc64 := c3\<rparr>) @ (str @ [NUL])
                   @ replicate (unat pl) NUL) = pos"
      by (simp add: pos_def length_rawheader_image [OF Wf(1,2)])
    ultimately show ?thesis by (metis append_eq_conv_conj)
  qed
  have L: "(of_nat (length xs) * 8 :: UINT4) = of_nat (length xs * 8)" by simp
  have uL: "unat (of_nat (length xs * 8) :: UINT4) \<le> 8 * length xs"
    by (simp only: unat_of_nat mult.commute [of 8]) (rule mod_less_eq_dividend)
  have blocks: "crc_data_blocks (of_nat (length xs) * 8) crc2 ?fp2 = Some c3"
  proof -
    have "fpos ?fp2 + unat (of_nat (length xs * 8) :: UINT4) \<le> length (fbytes ?fp2)"
      using uL by (simp add: lb)
    from crc_data_blocks_ok [OF this, of crc2]
    show ?thesis by (simp only: L) (simp add: dr c3_def calc_crc64_foldl)
  qed
  have valid: "has_valid_v2_crc64 E (Some ?fp) = 1"
    by (simp add: has_valid_v2_crc64_def ver hdr blocks)
  show ?thesis
    using ver hdr dr blocks valid unfolding Wf(4,5) str_def by blast
qed

lemma example_written:
  "XLALWriteSFT2fp ieee_env (Some example_sft) (Some []) (Some ''hi'') = Inr example_bytes"
proof -
  have "\<not> isl (XLALWriteSFT2fp ieee_env (Some example_sft) (Some []) (Some ''hi''))"
    by (simp add: XLALWriteSFT2fp_def example_sft_def fp_le_def fp_lt_def fp_is_nan_def fp_mag_def
          fp_key_def REAL8_0_def XLALIsValidCWDetector_def ieee_env_def Let_def)
  then show ?thesis by (simp add: example_bytes_def)
qed

lemma example_facts:
  "data example_sft = Some [(0x3F800000, 0), (0x3F800000, 0)]"
  "NUL \<notin> set (name example_sft)"
  "NUL \<notin> set (case Some ''hi'' of None \<Rightarrow> [] | Some c \<Rightarrow> c)"
  "length (SFTcomment_string (name example_sft) (Some ''hi'')) + 8 < 2 ^ 31"
  "length [(0x3F800000, 0), (0x3F800000, 0) :: COMPLEX8] < 2 ^ 31"
  by (simp_all add: example_sft_def NUL_def SFTcomment_string_def)

lemma comment_written:
  assumes w: "XLALWriteSFT2fp E (Some sft) (Some out) SFTcomment = Inr out'"
    and nm: "NUL \<notin> set (name sft)"
    and cm: "NUL \<notin> set (case SFTcomment of None \<Rightarrow> [] | Some c \<Rightarrow> c)"
    and len: "length (SFTcomment_string (name sft) SFTcomment) + 8 < 2 ^ 31"
  shows "c_str (drop (length out + 48) out') = SFTcomment_string (name sft) SFTcomment"
proof -
  from writer_success [OF w] obtain xs where d: "data sft = Some xs" by blast
  define W where "W = writer_rawheader E sft xs SFTcomment"
  have Wl: "length (rh_detector (W\<lparr>rh_crc64 := c\<rparr>)) = 2" "length (rh_padding (W\<lparr>rh_crc64 := c\<rparr>)) = 2" for c
    by (simp_all add: W_def writer_rawheader_def Let_def)
  from writer_bytes(1) [OF w d len]
  obtain c p where b: "out' = out @ rawheader_image (W\<lparr>rh_crc64 := c\<rparr>)
       @ (SFTcomment_string (name sft) SFTcomment @ [NUL]) @ replicate p NUL @ data_image xs"
    unfolding W_def by blast
  have "out' = (out @ rawheader_image (W\<lparr>rh_crc64 := c\<rparr>))
       @ (SFTcomment_string (name sft) SFTcomment @ NUL # replicate p NUL @ data_image xs)"
    by (simp add: b)
  moreover have "length (out @ rawheader_image (W\<lparr>rh_crc64 := c\<rparr>)) = length out + 48"
    by (simp add: length_rawheader_image [OF Wl])
  ultimately have "drop (length out + 48) out'
       = SFTcomment_string (name sft) SFTcomment @ NUL # replicate p NUL @ data_image xs"
    by (metis append_eq_conv_conj)
  then show ?thesis
    using c_str_append_NUL [OF NUL_SFTcomment_string [OF nm cm]] by simp
qed

subsection \<open>Checksum validation of a catalog\<close>





subsection \<open>File and glob resolver\<close>

lemma finish_filelist_ok:
  "finish_filelist filelist = Inr xs \<Longrightarrow> sorted xs \<and> xs \<noteq> []"
proof -
  assume a: "finish_filelist filelist = Inr xs"
  then have ne: "filelist \<noteq> []" by (auto simp: finish_filelist_def split: if_splits)
  have "xs = sort filelist \<or> (xs = filelist \<and> length filelist = 1)"
    using a ne by (auto simp: finish_filelist_def XLALSortStringVector_def split: if_splits
                     intro: Suc_lessI)
  then show ?thesis
  proof
    assume "xs = sort filelist"
    then show ?thesis using ne by (metis sorted_sort length_sort length_0_conv)
  next
    assume "xs = filelist \<and> length filelist = 1"
    then show ?thesis by (cases filelist) auto
  qed
qed

lemma find_files_ok:
  "(XLALFindFiles S g = Inr xs \<longrightarrow> sorted xs \<and> xs \<noteq> [])"
  "(multi_pattern_loop S p fl = Inr ys \<longrightarrow> sorted ys \<and> ys \<noteq> [])"
proof (induction S g and S p fl arbitrary: xs and ys rule: XLALFindFiles_multi_pattern_loop.induct)
  case (1 S globstring)
  show ?case
    using "1.IH" [of xs]
    by (subst XLALFindFiles.simps)
       (auto simp: Let_def dest: finish_filelist_ok split: option.splits if_splits prod.splits)
next
  case (2 S ptr1 filelist)
  show ?case
    using "2.IH"(2)
    by (subst multi_pattern_loop.simps)
       (auto simp: Let_def dest: finish_filelist_ok split: sum.splits if_splits)
qed

lemma find_example_dup: "XLALFindFiles example_dirsys ''a;a'' = Inr [''a'', ''a'']"
  by (simp add: XLALFindFiles.simps multi_pattern_loop.simps has_prefix_def is_pattern_def
        finish_filelist_def XLALSortStringVector_def Let_def)

lemma find_example_sorted: "XLALFindFiles example_dirsys ''b.sft;a.sft'' = Inr [''a.sft'', ''b.sft'']"
  by (simp add: XLALFindFiles.simps multi_pattern_loop.simps has_prefix_def is_pattern_def
        finish_filelist_def XLALSortStringVector_def Let_def less_eq_char_def less_char_def)

subsection \<open>Science-mode filter of the SFDB importer\<close>


lemma timestamp_files_loop_error:
  "timestamp_files_loop fnames startingTS endingTS detectors = Inl e \<Longrightarrow> e = XLAL_EINVAL"
  by (induction fnames startingTS endingTS detectors rule: timestamp_files_loop.induct)
     (auto simp: Let_def split: if_splits)





subsection \<open>Catalog builder\<close>

lemma set_qsort_insert: "set (qsort_insert cmp x xs) = insert x (set xs)"
  by (induction xs) auto

lemma set_qsort: "set (qsort cmp xs) = set xs"
  by (induction xs) (auto simp: qsort_def set_qsort_insert)






lemma data_find_success:
  assumes "XLALSFTdataFind E S fs (Some pat) constraints = Inr catalog"
  shows "\<exists>fnames ret. XLALFindFiles S pat = Inr fnames
           \<and> scan_files E fs constraints fnames [] = Inr ret
           \<and> catalog = qsort (compareSFTdesc E) ret
           \<and> (\<forall>c ts. constraints = Some c \<longrightarrow> timestamps c = Some ts \<longrightarrow> timestamps_all_found E c ts ret)"
  using assms
  by (auto simp: XLALSFTdataFind_def split: sum.splits if_splits option.splits)

lemma example_floats:
  "fp_div ieee_env (fp_of_int ieee_env (sint (word_of_int (fp_lround ieee_env
       (fp_div ieee_env (f0 example_sft) (deltaF example_sft))) :: INT4)))
     (TSFTfromDFreq ieee_env (deltaF example_sft)) = 0x4024000000000000"
  "fp_div ieee_env REAL8_1 (TSFTfromDFreq ieee_env (deltaF example_sft)) = 0x3F423456789ABCDF"
  by (simp_all add: ieee_env_def example_sft_def) code_simp+

lemma example_header:
  "\<exists>ref pos. read_sft_header_from_fp ieee_env \<lparr>fbytes = example_bytes, fpos = 0\<rparr>
      = Some (\<lparr> name = ''H1'', epoch = gps_at 1000000000, f0 = 0x4024000000000000,
                 deltaF = 0x3F423456789ABCDF, data = None \<rparr>,
              2, ref, False, Some ''H1; hi'', 2, \<lparr>fbytes = example_bytes, fpos = pos\<rparr>)
      \<and> length example_bytes = pos + 16"
proof -
  from write_read_main [OF example_written example_facts]
  obtain hcrc ref pos where
    ver: "read_SFTversion_from_fp \<lparr>fbytes = example_bytes, fpos = 0\<rparr> = Some (2, False)"
    and hdr: "read_v2_header_from_fp ieee_env \<lparr>fbytes = example_bytes, fpos = 0\<rparr> False =
        Some (\<lparr> name = ''H1'', epoch = gps_at 1000000000, f0 = 0x4024000000000000,
                 deltaF = 0x3F423456789ABCDF, data = None \<rparr>,
              2, hcrc, ref, Some ''H1; hi'', \<lparr>fbytes = example_bytes, fpos = pos\<rparr>)"
    and dr: "drop pos example_bytes = data_image [(0x3F800000, 0), (0x3F800000, 0)]"
    unfolding example_floats
    by (auto simp: example_sft_def gps_at_def SFTcomment_string_def)
  have "length (drop pos example_bytes) = 16" unfolding dr by (simp add: length_data_image)
  then have len: "length example_bytes = pos + 16" by simp
  have "read_sft_header_from_fp ieee_env \<lparr>fbytes = example_bytes, fpos = 0\<rparr>
      = Some (\<lparr> name = ''H1'', epoch = gps_at 1000000000, f0 = 0x4024000000000000,
                 deltaF = 0x3F423456789ABCDF, data = None \<rparr>,
              2, ref, False, Some ''H1; hi'', 2, \<lparr>fbytes = example_bytes, fpos = pos\<rparr>)"
    by (simp add: read_sft_header_from_fp_def ver hdr gps_at_def fp_le_def fp_lt_def fp_is_nan_def
          fp_mag_def fp_key_def REAL8_0_def)
  with len show ?thesis by blast
qed

lemma example_find_files: "XLALFindFiles example_dirsys example_pattern = Inr [example_pattern]"
  by (simp add: XLALFindFiles.simps example_pattern_def has_prefix_def is_pattern_def
        finish_filelist_def)

lemma example_data_find:
  "\<exists>ref pos. XLALSFTdataFind ieee_env example_dirsys example_fs (Some example_pattern)
              (Some example_constraints)
      = Inr [\<lparr> locator = Some \<lparr> fname = example_pattern, offset = 0, isft = 0 \<rparr>,
               header = \<lparr> name = ''H1'', epoch = gps_at 1000000000, f0 = 0x4024000000000000,
                          deltaF = 0x3F423456789ABCDF, data = None \<rparr>,
               comment = Some ''H1; hi'', numBins = 2, version = 2, crc64 = ref \<rparr>]
     \<and> read_blocks ieee_env (length example_bytes) \<lparr>fbytes = example_bytes, fpos = 0\<rparr>
         = [(\<lparr> name = ''H1'', epoch = gps_at 1000000000, f0 = 0x4024000000000000,
                          deltaF = 0x3F423456789ABCDF, data = None \<rparr>, 2, 2)]"
proof -
  let ?H = "\<lparr> name = ''H1'', epoch = gps_at 1000000000, f0 = 0x4024000000000000,
                          deltaF = 0x3F423456789ABCDF, data = None \<rparr>"
  from example_header obtain ref pos where
    r: "read_sft_header_from_fp ieee_env \<lparr>fbytes = example_bytes, fpos = 0\<rparr>
      = Some (?H, 2, ref, False, Some ''H1; hi'', 2, \<lparr>fbytes = example_bytes, fpos = pos\<rparr>)"
    and len: "length example_bytes = pos + 16" by blast
  let ?D = "\<lparr> locator = Some \<lparr> fname = example_pattern, offset = 0, isft = 0 \<rparr>,
               header = ?H, comment = Some ''H1; hi'', numBins = 2, version = 2, crc64 = ref \<rparr>"
  have w: "want_this_block ieee_env (Some example_constraints) ?H"
    by (simp add: want_this_block_def example_constraints_def XLALCWGPSinRange_def
          timestamp_in_list_def gps_at_def)
  have sb: "scan_blocks ieee_env example_pattern (length example_bytes) (Some example_constraints)
              \<lparr>fbytes = example_bytes, fpos = 0\<rparr> None [] = Inr [?D]"
    by (subst scan_blocks.simps) (simp add: r w len)
  have rb: "read_blocks ieee_env (length example_bytes) \<lparr>fbytes = example_bytes, fpos = 0\<rparr>
         = [(?H, 2, 2)]"
    by (subst read_blocks.simps) (simp add: r len)
  have fo: "fopen example_fs example_pattern = Some \<lparr>fbytes = example_bytes, fpos = 0\<rparr>"
    by (simp add: fopen_def example_fs_def example_pattern_def)
  have sf: "scan_files ieee_env example_fs (Some example_constraints) [example_pattern] [] = Inr [?D]"
  proof -
    have "length example_bytes \<noteq> 0" using len by simp
    then show ?thesis by (simp add: fo sb)
  qed
  have tf: "timestamps_all_found ieee_env example_constraints [gps_at 1000000000] [?D]"
    by (simp add: timestamps_all_found_def gps_at_def)
  have fe: "fp_eq 0x3F423456789ABCDF 0x3F423456789ABCDF"
    by (simp add: fp_eq_def fp_is_nan_def fp_mag_def)
  have v: "XLALIsValidCWDetector ieee_env ''H1''"
    by (simp add: XLALIsValidCWDetector_def ieee_env_def)
  have "XLALSFTdataFind ieee_env example_dirsys example_fs (Some example_pattern)
              (Some example_constraints) = Inr [?D]"
  proof -
    have c: "detector example_constraints = Some ''H1''"
        "timestamps example_constraints = Some [gps_at 1000000000]"
      by (simp_all add: example_constraints_def)
    show ?thesis
      unfolding XLALSFTdataFind_def
      apply (simp only: option.case example_find_files sum.case sf c)
      apply (use tf v in \<open>simp add: fe qsort_def\<close>)
      done
  qed
  with rb show ?thesis by blast
qed

lemma example_catalog_found:
  "XLALSFTdataFind ieee_env example_dirsys example_fs (Some example_pattern)
     (Some example_constraints) = Inr example_catalog"
  using example_data_find by (auto simp: example_catalog_def)

subsection \<open>Segment loader\<close>

lemma example_dc_written:
  "XLALWriteSFT2fp ieee_env (Some example_dc_sft) (Some []) None = Inr example_dc_bytes"
proof -
  have "\<not> isl (XLALWriteSFT2fp ieee_env (Some example_dc_sft) (Some []) None)"
    by (simp add: XLALWriteSFT2fp_def example_dc_sft_def fp_le_def fp_lt_def fp_is_nan_def fp_mag_def
          fp_key_def REAL8_0_def XLALIsValidCWDetector_def ieee_env_def Let_def)
  then show ?thesis by (simp add: example_dc_bytes_def)
qed

lemma example_dc_facts:
  "data example_dc_sft = Some [(0x3F800000, 0)]"
  "NUL \<notin> set (name example_dc_sft)"
  "NUL \<notin> set (case None of None \<Rightarrow> [] | Some c \<Rightarrow> c)"
  "length (SFTcomment_string (name example_dc_sft) None) + 8 < 2 ^ 31"
  "length [(0x3F800000, 0) :: COMPLEX8] < 2 ^ 31"
  by (simp_all add: example_dc_sft_def NUL_def SFTcomment_string_def)

lemma example_dc_floats:
  "fp_div ieee_env (fp_of_int ieee_env (sint (word_of_int (fp_lround ieee_env
       (fp_div ieee_env (f0 example_dc_sft) (deltaF example_dc_sft))) :: INT4)))
     (TSFTfromDFreq ieee_env (deltaF example_dc_sft)) = 0"
  "fp_div ieee_env REAL8_1 (TSFTfromDFreq ieee_env (deltaF example_dc_sft)) = 0x3F423456789ABCDF"
  "fp_lround ieee_env (fp_div ieee_env 0 0x3F423456789ABCDF) = 0"
  by (simp_all add: ieee_env_def example_dc_sft_def) code_simp+


lemma example_dc_header:
  "\<exists>ref pos. read_sft_header_from_fp ieee_env \<lparr>fbytes = example_dc_bytes, fpos = 0\<rparr>
      = Some (\<lparr> name = ''H1'', epoch = gps_at 1000000000, f0 = 0,
                 deltaF = 0x3F423456789ABCDF, data = None \<rparr>,
              2, ref, False, Some ''H1'', 1, \<lparr>fbytes = example_dc_bytes, fpos = pos\<rparr>)
      \<and> length example_dc_bytes = pos + 8"
proof -
  from write_read_main [OF example_dc_written example_dc_facts]
  obtain hcrc ref pos where
    ver: "read_SFTversion_from_fp \<lparr>fbytes = example_dc_bytes, fpos = 0\<rparr> = Some (2, False)"
    and hdr: "read_v2_header_from_fp ieee_env \<lparr>fbytes = example_dc_bytes, fpos = 0\<rparr> False =
        Some (\<lparr> name = ''H1'', epoch = gps_at 1000000000, f0 = 0,
                 deltaF = 0x3F423456789ABCDF, data = None \<rparr>,
              1, hcrc, ref, Some ''H1'', \<lparr>fbytes = example_dc_bytes, fpos = pos\<rparr>)"
    and dr: "drop pos example_dc_bytes = data_image [(0x3F800000, 0)]"
    unfolding example_dc_floats
    by (auto simp: example_dc_sft_def gps_at_def SFTcomment_string_def)
  have "length (drop pos example_dc_bytes) = 8" unfolding dr by (simp add: length_data_image)
  then have len: "length example_dc_bytes = pos + 8" by simp
  have "read_sft_header_from_fp ieee_env \<lparr>fbytes = example_dc_bytes, fpos = 0\<rparr>
      = Some (\<lparr> name = ''H1'', epoch = gps_at 1000000000, f0 = 0,
                 deltaF = 0x3F423456789ABCDF, data = None \<rparr>,
              2, ref, False, Some ''H1'', 1, \<lparr>fbytes = example_dc_bytes, fpos = pos\<rparr>)"
    by (simp add: read_sft_header_from_fp_def ver hdr gps_at_def fp_le_def fp_lt_def fp_is_nan_def
          fp_mag_def fp_key_def REAL8_0_def)
  with len show ?thesis by blast
qed

lemma example_dc_data_find:
  "\<exists>ref. XLALSFTdataFind ieee_env example_dirsys example_dc_fs (Some example_pattern) None
      = Inr [\<lparr> locator = Some \<lparr> fname = example_pattern, offset = 0, isft = 0 \<rparr>,
               header = \<lparr> name = ''H1'', epoch = gps_at 1000000000, f0 = 0,
                          deltaF = 0x3F423456789ABCDF, data = None \<rparr>,
               comment = Some ''H1'', numBins = 1, version = 2, crc64 = ref \<rparr>]"
proof -
  let ?H = "\<lparr> name = ''H1'', epoch = gps_at 1000000000, f0 = 0,
                          deltaF = 0x3F423456789ABCDF, data = None \<rparr>"
  from example_dc_header obtain ref pos where
    r: "read_sft_header_from_fp ieee_env \<lparr>fbytes = example_dc_bytes, fpos = 0\<rparr>
      = Some (?H, 2, ref, False, Some ''H1'', 1, \<lparr>fbytes = example_dc_bytes, fpos = pos\<rparr>)"
    and len: "length example_dc_bytes = pos + 8" by blast
  let ?D = "\<lparr> locator = Some \<lparr> fname = example_pattern, offset = 0, isft = 0 \<rparr>,
               header = ?H, comment = Some ''H1'', numBins = 1, version = 2, crc64 = ref \<rparr>"
  have w: "want_this_block ieee_env None ?H"
    by (simp add: want_this_block_def)
  have sb: "scan_blocks ieee_env example_pattern (length example_dc_bytes) None
              \<lparr>fbytes = example_dc_bytes, fpos = 0\<rparr> None [] = Inr [?D]"
    by (subst scan_blocks.simps) (simp add: r w len)
  have fo: "fopen example_dc_fs example_pattern = Some \<lparr>fbytes = example_dc_bytes, fpos = 0\<rparr>"
    by (simp add: fopen_def example_dc_fs_def)
  have sf: "scan_files ieee_env example_dc_fs None [example_pattern] [] = Inr [?D]"
  proof -
    have "length example_dc_bytes \<noteq> 0" using len by simp
    then show ?thesis by (simp add: fo sb)
  qed
  have fe: "fp_eq 0x3F423456789ABCDF 0x3F423456789ABCDF"
    by (simp add: fp_eq_def fp_is_nan_def fp_mag_def)
  have "XLALSFTdataFind ieee_env example_dirsys example_dc_fs (Some example_pattern) None = Inr [?D]"
    unfolding XLALSFTdataFind_def
    apply (simp only: option.case example_find_files sum.case sf)
    apply (simp add: fe qsort_def)
    done
  then show ?thesis by blast
qed

lemma example_dc_read_bins:
  assumes r: "read_sft_header_from_fp ieee_env \<lparr>fbytes = example_dc_bytes, fpos = 0\<rparr>
      = Some (\<lparr> name = ''H1'', epoch = gps_at 1000000000, f0 = 0,
                 deltaF = 0x3F423456789ABCDF, data = None \<rparr>,
              2, ref, False, Some ''H1'', 1, \<lparr>fbytes = example_dc_bytes, fpos = pos\<rparr>)"
    and len: "length example_dc_bytes = pos + 8"
  shows "\<exists>buf fp'. read_sft_bins_from_fp ieee_env (XLALCreateSFT 1) 0 0
            \<lparr>fbytes = example_dc_bytes, fpos = 0\<rparr> = (0, 0, buf, fp')
          \<and> b_epoch buf = gps_at 1000000000 \<and> b_deltaF buf = 0x3F423456789ABCDF"
proof -
  have lr: "fp_lround ieee_env (fp_div ieee_env 0 0x3F423456789ABCDF) = 0"
    by (rule example_dc_floats(3))
  show ?thesis
    unfolding read_sft_bins_from_fp_def
    by (simp add: r lr Let_def XLALCreateSFT_def fseek_cur_def fread_def len split: prod.split)
qed


lemma example_dc_load:
  assumes c: "catalog = [\<lparr> locator = Some \<lparr> fname = example_pattern, offset = 0, isft = 0 \<rparr>,
               header = \<lparr> name = ''H1'', epoch = gps_at 1000000000, f0 = 0,
                          deltaF = 0x3F423456789ABCDF, data = None \<rparr>,
               comment = Some ''H1'', numBins = 1, version = 2, crc64 = ref \<rparr>]"
  shows "XLALLoadSFTs ieee_env example_dc_fs (Some catalog) 0xBFF0000000000000 0xBFF0000000000000
      = Inr [\<lparr> b_name = [], b_epoch = gps_at 1000000000, b_f0 = 0,
                b_deltaF = 0x3F423456789ABCDF, b_data = [None] \<rparr>]"
proof -
  from example_dc_header obtain ref' pos where
    r: "read_sft_header_from_fp ieee_env \<lparr>fbytes = example_dc_bytes, fpos = 0\<rparr>
      = Some (\<lparr> name = ''H1'', epoch = gps_at 1000000000, f0 = 0,
                 deltaF = 0x3F423456789ABCDF, data = None \<rparr>,
              2, ref', False, Some ''H1'', 1, \<lparr>fbytes = example_dc_bytes, fpos = pos\<rparr>)"
    and len: "length example_dc_bytes = pos + 8" by blast
  from example_dc_read_bins [OF r len] obtain buf fp' where
    rb: "read_sft_bins_from_fp ieee_env (XLALCreateSFT 1) 0 0
            \<lparr>fbytes = example_dc_bytes, fpos = 0\<rparr> = (0, 0, buf, fp')"
    and be: "b_epoch buf = gps_at 1000000000" by blast
  have lr: "fp_lround ieee_env (fp_div ieee_env 0 0x3F423456789ABCDF) = 0"
    by (rule example_dc_floats(3))
  have m1: "fp_lt 0xBFF0000000000000 REAL8_0"
    by (simp add: fp_lt_def fp_is_nan_def fp_mag_def fp_key_def REAL8_0_def)
  have f0: "fp_mul ieee_env (fp_mul ieee_env REAL8_1 (fp_of_int ieee_env 0)) 0x3F423456789ABCDF = 0"
    by (simp add: ieee_env_def) code_simp
  have fo: "fopen example_dc_fs example_pattern = Some \<lparr>fbytes = example_dc_bytes, fpos = 0\<rparr>"
    by (simp add: fopen_def example_dc_fs_def)
  have ne: "example_pattern \<noteq> []" "[] \<noteq> example_pattern" by (simp_all add: example_pattern_def)
  have cr: "XLALCreateSFT 1 = \<lparr> b_name = [], b_epoch = \<lparr> gpsSeconds = 0, gpsNanoSeconds = 0 \<rparr>,
       b_f0 = 0, b_deltaF = 0, b_data = [None] \<rparr>"
    by (simp add: XLALCreateSFT_def)
  show ?thesis
    unfolding XLALLoadSFTs_def c
    apply (simp add: lr m1 f0 fo ne rb be Let_def qsort_def add_segment_def complete_SFTs_def GPSZERO_def
          XLALCreateSFT_def [of 1, symmetric] gps_at_def)
    apply (simp add: cr)
    done
qed

subsection \<open>The claims\<close>

text \<open>
  Claim C9.  The CRC64 engine treats the empty byte range as an identity: a zero length
  returns the running checksum unchanged whatever the data pointer is, and a \<^verbatim>\<open>NULL\<close>
  data pointer returns it unchanged whatever the length is.
\<close>

theorem calc_crc64_empty_identity:
  "calc_crc64 buf 0 c = c \<and> calc_crc64 None n c = c"
  by (simp add: calc_crc64_def split: option.split)

text \<open>
  Claim C10.  The comment field of a written SFT holds the name of the SFT, followed by
  \<^verbatim>\<open>"; "\<close> and the caller's comment when one is given.  So the stored comment begins with
  the name and is never the caller's comment itself.  (Name and comment are C strings, and
  the stored comment with its padding fits the \<^verbatim>\<open>INT4\<close> length field.)
\<close>

theorem written_comment_is_name_then_comment:
  assumes "XLALWriteSFT2fp E (Some sft) (Some out) SFTcomment = Inr out'"
    and "NUL \<notin> set (name sft)"
    and "NUL \<notin> set (case SFTcomment of None \<Rightarrow> [] | Some c \<Rightarrow> c)"
    and "length (SFTcomment_string (name sft) SFTcomment) + 8 < 2 ^ 31"
  shows "c_str (drop (length out + 48) out')
           = (case SFTcomment of None \<Rightarrow> name sft | Some c \<Rightarrow> name sft @ ''; '' @ c)
         \<and> take (length (name sft)) (c_str (drop (length out + 48) out')) = name sft
         \<and> SFTcomment \<noteq> Some (c_str (drop (length out + 48) out'))"
proof -
  have s: "c_str (drop (length out + 48) out') = SFTcomment_string (name sft) SFTcomment"
    using assms by (rule comment_written)
  show ?thesis
    unfolding s by (cases SFTcomment) (simp_all add: SFTcomment_string_def)
qed

theorem written_comment_is_name_then_comment_witness:
  "XLALWriteSFT2fp ieee_env (Some example_sft) (Some []) (Some ''hi'') = Inr example_bytes
   \<and> NUL \<notin> set (name example_sft)
   \<and> c_str (drop 48 example_bytes) = ''H1; hi''
   \<and> take 2 (c_str (drop 48 example_bytes)) = ''H1''
   \<and> Some ''hi'' \<noteq> Some (c_str (drop 48 example_bytes))"
  using written_comment_is_name_then_comment
          [OF example_written example_facts(2) example_facts(3) example_facts(4)]
        example_written example_facts(2)
  by (simp add: example_sft_def)







text \<open>
  Claim C4, as stated, fails: the resolver sorts the names but removes no duplicate.  A
  name given twice is returned twice.
\<close>

theorem find_files_duplicate_counterexample:
  "XLALFindFiles example_dirsys ''a;a'' = Inr [''a'', ''a''] \<and> \<not> distinct [''a'', ''a'' :: cchar list]"
  using find_example_dup by simp

text \<open>
  Claim C4, amended.  Every list returned by \<^verbatim>\<open>XLALFindFiles\<close> is sorted (in non-decreasing
  order, duplicates are kept) and is not empty: when no path resolves the call fails.
\<close>

theorem find_files_sorted_nonempty:
  assumes "XLALFindFiles S globstring = Inr filelist"
  shows "sorted filelist \<and> filelist \<noteq> []"
  using assms find_files_ok(1) by blast

theorem find_files_sorted_nonempty_witness:
  "XLALFindFiles example_dirsys ''b.sft;a.sft'' = Inr [''a.sft'', ''b.sft'']
   \<and> sorted [''a.sft'', ''b.sft'' :: cchar list] \<and> [''a.sft'', ''b.sft'' :: cchar list] \<noteq> []"
  using find_files_sorted_nonempty [OF find_example_sorted] find_example_sorted by simp






text \<open>
  Claim C5.  When the constraints carry a list of timestamps, every catalog returned by
  \<^verbatim>\<open>XLALSFTdataFind\<close> has, for every requested timestamp that \<^verbatim>\<open>XLALCWGPSinRange\<close> places
  in \<open>[minStartTime, maxStartTime)\<close>, a descriptor with that epoch; so a build with such
  a timestamp unmatched returns an error and no catalog.
\<close>

theorem requested_timestamps_matched:
  assumes "XLALSFTdataFind E S fs (Some file_pattern) (Some c) = Inr catalog"
    and "timestamps c = Some ts"
  shows "\<forall>ts_i \<in> set ts.
           XLALCWGPSinRange E ts_i (minStartTime c) (maxStartTime c) = 0 \<longrightarrow>
           (\<exists>d \<in> set catalog. gpsSeconds (epoch (header d)) = gpsSeconds ts_i
                              \<and> gpsNanoSeconds (epoch (header d)) = gpsNanoSeconds ts_i)"
proof -
  from data_find_success [OF assms(1)] assms(2) obtain ret
    where c: "catalog = qsort (compareSFTdesc E) ret"
      and t: "timestamps_all_found E c ts ret" by blast
  show ?thesis
    using t unfolding c set_qsort timestamps_all_found_def by fastforce
qed

theorem requested_timestamps_matched_witness:
  "XLALSFTdataFind ieee_env example_dirsys example_fs (Some example_pattern)
     (Some example_constraints) = Inr example_catalog
   \<and> timestamps example_constraints = Some [gps_at 1000000000]
   \<and> XLALCWGPSinRange ieee_env (gps_at 1000000000) (minStartTime example_constraints)
        (maxStartTime example_constraints) = 0
   \<and> (\<exists>d \<in> set example_catalog. gpsSeconds (epoch (header d)) = 1000000000
                              \<and> gpsNanoSeconds (epoch (header d)) = 0)"
proof -
  have t: "timestamps example_constraints = Some [gps_at 1000000000]"
    by (simp add: example_constraints_def)
  have r: "XLALCWGPSinRange ieee_env (gps_at 1000000000) (minStartTime example_constraints)
        (maxStartTime example_constraints) = 0"
    by (simp add: example_constraints_def XLALCWGPSinRange_def)
  from requested_timestamps_matched [OF example_catalog_found t] r
  have "\<exists>d \<in> set example_catalog. gpsSeconds (epoch (header d)) = gpsSeconds (gps_at 1000000000)
                              \<and> gpsNanoSeconds (epoch (header d)) = gpsNanoSeconds (gps_at 1000000000)"
    by simp
  then show ?thesis using example_catalog_found t r by (simp add: gps_at_def)
qed

text \<open>
  Claim C3 states that \<^verbatim>\<open>XLALLoadSFTs\<close> never returns a frequency series that is not filled
  from the first to the last requested bin.  The loader takes a last bin of 0 returned by
  \<^verbatim>\<open>read_sft_bins_from_fp\<close> for "no bins read", and a last bin of 0 in a segment for "no
  data yet".  For the file of an SFT whose only bin is bin 0, loaded whole
  (\<^verbatim>\<open>fMin = fMax = -1\<close>), the bin is read from the file but never copied, the final check
  compares 0 with 0, and the call returns an SFT whose only sample was never written.
\<close>

theorem load_single_bin_unfilled:
  "XLALWriteSFT2fp ieee_env (Some example_dc_sft) (Some []) None = Inr example_dc_bytes
   \<and> XLALSFTdataFind ieee_env example_dirsys example_dc_fs (Some example_pattern) None
       = Inr example_dc_catalog
   \<and> map numBins example_dc_catalog = [1]
   \<and> XLALLoadSFTs ieee_env example_dc_fs (Some example_dc_catalog)
         0xBFF0000000000000 0xBFF0000000000000
       = Inr [\<lparr> b_name = [], b_epoch = gps_at 1000000000, b_f0 = 0,
                 b_deltaF = 0x3F423456789ABCDF, b_data = [None] \<rparr>]"
proof -
  from example_dc_data_find obtain ref where
    f: "XLALSFTdataFind ieee_env example_dirsys example_dc_fs (Some example_pattern) None
      = Inr [\<lparr> locator = Some \<lparr> fname = example_pattern, offset = 0, isft = 0 \<rparr>,
               header = \<lparr> name = ''H1'', epoch = gps_at 1000000000, f0 = 0,
                          deltaF = 0x3F423456789ABCDF, data = None \<rparr>,
               comment = Some ''H1'', numBins = 1, version = 2, crc64 = ref \<rparr>]"
    by blast
  then have c: "example_dc_catalog
      = [\<lparr> locator = Some \<lparr> fname = example_pattern, offset = 0, isft = 0 \<rparr>,
               header = \<lparr> name = ''H1'', epoch = gps_at 1000000000, f0 = 0,
                          deltaF = 0x3F423456789ABCDF, data = None \<rparr>,
               comment = Some ''H1'', numBins = 1, version = 2, crc64 = ref \<rparr>]"
    by (simp add: example_dc_catalog_def)
  have n: "map numBins example_dc_catalog = [1]" by (simp add: c)
  have l: "XLALSFTdataFind ieee_env example_dirsys example_dc_fs (Some example_pattern) None
      = Inr example_dc_catalog"
    by (simp only: f c)
  from example_dc_load [OF c] l n example_dc_written show ?thesis by simp
qed

end
